theory Spec2Isabelle
  imports Main "HOL-Library.Word"
begin

unbundle bit_operations_syntax

section \<open>Script environment (host callbacks)\<close>

text \<open>
  The script environment \<^verbatim>\<open>struct sieve_script_env\<close> is supplied by the host. Only the
  fields that the functions below read are kept. A C pointer that may be \<^verbatim>\<open>NULL\<close> is an
  \<open>option\<close>. The two duplicate callbacks run host code: they take the host's state \<open>'h\<close>
  and return the new one. A C string is the list of its bytes before the terminating NUL.
\<close>

record 'h sieve_script_env =
  default_mailbox :: "string option"
  username :: string
  namespaces :: "nat option"
  mailbox_autocreate :: bool
  mailbox_autosubscribe :: bool
  duplicate_check :: "(string \<Rightarrow> nat \<Rightarrow> string \<Rightarrow> 'h \<Rightarrow> int \<times> 'h) option"
  duplicate_mark :: "(string \<Rightarrow> nat \<Rightarrow> string \<Rightarrow> int \<Rightarrow> 'h \<Rightarrow> 'h) option"

text \<open>
  Every call of a host callback is recorded, so that "the callback was not invoked" is a
  statement about the record of calls and not only about the host's state.
\<close>

datatype host_call =
  Called_duplicate_check string nat string
| Called_duplicate_mark string nat string int

record 'h host =
  hstate :: 'h
  calls :: "host_call list"

section \<open>Action utility functions\<close>

text \<open>
  \<^verbatim>\<open>
  bool sieve_action_duplicate_check_available(const struct sieve_script_env *senv)
  {
      return ( senv->duplicate_check != NULL && senv->duplicate_mark != NULL );
  }
  \<close>
\<close>

definition sieve_action_duplicate_check_available :: "'h sieve_script_env \<Rightarrow> bool" where
  "sieve_action_duplicate_check_available senv =
     (duplicate_check senv \<noteq> None \<and> duplicate_mark senv \<noteq> None)"

text \<open>
  \<^verbatim>\<open>
  int sieve_action_duplicate_check
  (const struct sieve_script_env *senv, const void *id, size_t id_size)
  {
      if ( senv->duplicate_check == NULL || senv->duplicate_mark == NULL)
          return 0;
      return senv->duplicate_check(id, id_size, senv->username);
  }
  \<close>
\<close>

definition sieve_action_duplicate_check ::
  "'h sieve_script_env \<Rightarrow> string \<Rightarrow> nat \<Rightarrow> 'h host \<Rightarrow> int \<times> 'h host" where
  "sieve_action_duplicate_check senv ident id_size h =
     (if duplicate_check senv = None \<or> duplicate_mark senv = None then (0, h)
      else case duplicate_check senv of
             None \<Rightarrow> (0, h)
           | Some cb \<Rightarrow>
               (case cb ident id_size (username senv) (hstate h) of
                  (r, s) \<Rightarrow>
                    (r, \<lparr>hstate = s,
                         calls = calls h @ [Called_duplicate_check ident id_size (username senv)]\<rparr>)))"

text \<open>
  \<^verbatim>\<open>
  void sieve_action_duplicate_mark
  (const struct sieve_script_env *senv, const void *id, size_t id_size, time_t time)
  {
      if ( senv->duplicate_check == NULL || senv->duplicate_mark == NULL)
          return;
      senv->duplicate_mark(id, id_size, senv->username, time);
  }
  \<close>
\<close>

definition sieve_action_duplicate_mark ::
  "'h sieve_script_env \<Rightarrow> string \<Rightarrow> nat \<Rightarrow> int \<Rightarrow> 'h host \<Rightarrow> 'h host" where
  "sieve_action_duplicate_mark senv ident id_size time h =
     (if duplicate_check senv = None \<or> duplicate_mark senv = None then h
      else case duplicate_mark senv of
             None \<Rightarrow> h
           | Some cb \<Rightarrow>
               \<lparr>hstate = cb ident id_size (username senv) time (hstate h),
                calls = calls h @ [Called_duplicate_mark ident id_size (username senv) time]\<rparr>)"

section \<open>Store action: equality and duplicate check\<close>

text \<open>
  \<^verbatim>\<open>struct act_store_context { const char *mailbox; }\<close> is the context of a store action;
  \<^verbatim>\<open>struct sieve_action\<close> carries it in its \<^verbatim>\<open>void *context\<close> field, which is NULL for the
  (implicit) keep.
\<close>

record act_store_context =
  mailbox :: string

record sieve_action =
  act_context :: "act_store_context option"

record 'h sieve_runtime_env =
  scriptenv :: "'h sieve_script_env"

text \<open>
  Modelled from the spec: the macro \<^verbatim>\<open>SIEVE_SCRIPT_DEFAULT_MAILBOX(senv)\<close> is defined in a
  header that is not among the sources. The spec describes the field as
  "\<^verbatim>\<open>default_mailbox\<close>: string (defaults to "INBOX")".
\<close>

definition SIEVE_SCRIPT_DEFAULT_MAILBOX :: "'h sieve_script_env \<Rightarrow> string" where
  "SIEVE_SCRIPT_DEFAULT_MAILBOX senv =
     (case default_mailbox senv of None \<Rightarrow> ''INBOX'' | Some m \<Rightarrow> m)"

text \<open>
  The C library's \<^verbatim>\<open>strcmp\<close> and \<^verbatim>\<open>strcasecmp\<close> (in the C locale): the difference of the
  first two bytes that differ, read as unsigned char, after folding upper-case ASCII letters
  to lower case for \<^verbatim>\<open>strcasecmp\<close>; the end of a string counts as the byte 0.
\<close>

definition c_tolower :: "char \<Rightarrow> char" where
  "c_tolower c =
     (if (65::nat) \<le> of_char c \<and> of_char c \<le> (90::nat) then char_of (of_char c + (32::nat)) else c)"

fun strcmp :: "string \<Rightarrow> string \<Rightarrow> int" where
  "strcmp [] [] = 0"
| "strcmp [] (y # ys) = - int (of_char y)"
| "strcmp (x # xs) [] = int (of_char x)"
| "strcmp (x # xs) (y # ys) =
     (if x = y then strcmp xs ys else int (of_char x) - int (of_char y))"

fun strcasecmp :: "string \<Rightarrow> string \<Rightarrow> int" where
  "strcasecmp [] [] = 0"
| "strcasecmp [] (y # ys) = - int (of_char (c_tolower y))"
| "strcasecmp (x # xs) [] = int (of_char (c_tolower x))"
| "strcasecmp (x # xs) (y # ys) =
     (if c_tolower x = c_tolower y then strcasecmp xs ys
      else int (of_char (c_tolower x)) - int (of_char (c_tolower y)))"

text \<open>
  \<^verbatim>\<open>
  static bool act_store_equals
  (const struct sieve_script_env *senv,
      const struct sieve_action *act1, const struct sieve_action *act2)
  {
      struct act_store_context *st_ctx1 =
          ( act1 == NULL ? NULL : (struct act_store_context *) act1->context );
      struct act_store_context *st_ctx2 =
          ( act2 == NULL ? NULL : (struct act_store_context *) act2->context );
      const char *mailbox1, *mailbox2;

      if ( st_ctx1 == NULL && st_ctx2 == NULL )
          return TRUE;

      mailbox1 = ( st_ctx1 == NULL ?
          SIEVE_SCRIPT_DEFAULT_MAILBOX(senv) : st_ctx1->mailbox );
      mailbox2 = ( st_ctx2 == NULL ?
          SIEVE_SCRIPT_DEFAULT_MAILBOX(senv) : st_ctx2->mailbox );

      if ( strcmp(mailbox1, mailbox2) == 0 )
          return TRUE;

      return
          ( strcasecmp(mailbox1, "INBOX") == 0 && strcasecmp(mailbox2, "INBOX") == 0 );
  }
  \<close>
\<close>

definition act_store_equals ::
  "'h sieve_script_env \<Rightarrow> sieve_action option \<Rightarrow> sieve_action option \<Rightarrow> bool" where
  "act_store_equals senv act1 act2 =
     (let st_ctx1 = (case act1 of None \<Rightarrow> None | Some a \<Rightarrow> act_context a);
          st_ctx2 = (case act2 of None \<Rightarrow> None | Some a \<Rightarrow> act_context a)
      in if st_ctx1 = None \<and> st_ctx2 = None then True
         else
           let mailbox1 = (case st_ctx1 of None \<Rightarrow> SIEVE_SCRIPT_DEFAULT_MAILBOX senv
                                          | Some c \<Rightarrow> mailbox c);
               mailbox2 = (case st_ctx2 of None \<Rightarrow> SIEVE_SCRIPT_DEFAULT_MAILBOX senv
                                          | Some c \<Rightarrow> mailbox c)
           in if strcmp mailbox1 mailbox2 = 0 then True
              else strcasecmp mailbox1 ''INBOX'' = 0 \<and> strcasecmp mailbox2 ''INBOX'' = 0)"

text \<open>
  \<^verbatim>\<open>
  static int act_store_check_duplicate
  (const struct sieve_runtime_env *renv,
      const struct sieve_action *act, const struct sieve_action *act_other)
  {
      return ( act_store_equals(renv->scriptenv, act, act_other) ? 1 : 0 );
  }
  \<close>
\<close>

definition act_store_check_duplicate ::
  "'h sieve_runtime_env \<Rightarrow> sieve_action option \<Rightarrow> sieve_action option \<Rightarrow> int" where
  "act_store_check_duplicate renv act act_other =
     (if act_store_equals (scriptenv renv) act act_other then 1 else 0)"

text \<open>
  The words of the specification: the target mailbox of a store action is the name in its
  context, or the default mailbox of the script environment when there is no context; two
  names are equal without regard to case when they agree after folding ASCII letters.
  A C string holds no NUL byte: that byte ends it.
\<close>

definition store_target :: "'h sieve_script_env \<Rightarrow> sieve_action option \<Rightarrow> string" where
  "store_target senv act =
     (case act of
        None \<Rightarrow> SIEVE_SCRIPT_DEFAULT_MAILBOX senv
      | Some a \<Rightarrow>
          (case act_context a of
             None \<Rightarrow> SIEVE_SCRIPT_DEFAULT_MAILBOX senv
           | Some c \<Rightarrow> mailbox c))"

definition is_cstring :: "string \<Rightarrow> bool" where
  "is_cstring s = (CHR 0x00 \<notin> set s)"

definition equal_ignoring_case :: "string \<Rightarrow> string \<Rightarrow> bool" where
  "equal_ignoring_case a b = (map c_tolower a = map c_tolower b)"

section \<open>Store action: the transaction\<close>

text \<open>
  The store action works on the mail storage of the host through the functions of the mail
  storage library. The model records every call of such a function in \<open>mail_ops\<close>, with the
  handles it is given, and takes what the library answers from a parameter
  \<open>mail_storage\<close>, which sees the calls made so far. Handles of namespaces, mailbox lists,
  storages, mailboxes, transactions, mails, save contexts and keyword sets are numbers.
\<close>

datatype mail_error =
  MAIL_ERROR_NONE
| MAIL_ERROR_TEMP
| MAIL_ERROR_NOTPOSSIBLE
| MAIL_ERROR_PARAMS
| MAIL_ERROR_PERM
| MAIL_ERROR_NOSPACE
| MAIL_ERROR_NOTFOUND
| MAIL_ERROR_EXISTS
| MAIL_ERROR_EXPUNGED
| MAIL_ERROR_INUSE

datatype mailbox_flag =
  MAILBOX_FLAG_KEEP_RECENT
| MAILBOX_FLAG_SAVEONLY
| MAILBOX_FLAG_POST_SESSION
| MAILBOX_FLAG_IGNORE_ACLS

datatype mail_op =
  Mail_namespace_find nat string
| Mailbox_alloc nat string "mailbox_flag list"
| Mailbox_open nat
| Mailbox_get_storage nat
| Mail_storage_get_last_error nat
| Mailbox_close nat
| Mailbox_create nat
| Mailbox_list_set_subscribed nat string
| Mailbox_sync nat
| Mailbox_backends_equal nat nat
| Mailbox_keywords_create nat "string list"
| Mail_update_keywords nat nat
| Mailbox_keywords_unref "nat option" nat
| Mail_update_flags nat nat
| Mailbox_transaction_begin nat
| Mail_alloc nat
| Mailbox_save_alloc nat
| Mailbox_save_set_dest_mail nat nat
| Mailbox_save_set_flags nat nat "nat option"
| Mailbox_copy nat nat
| Mail_free nat
| Mailbox_transaction_commit nat
| Mailbox_transaction_rollback nat

record mail_namespace =
  ns_list :: nat
  ns_storage :: nat

record mail_storage =
  namespace_found :: "mail_op list \<Rightarrow> nat \<Rightarrow> string \<Rightarrow> (mail_namespace \<times> string) option"
  handle_returned :: "mail_op list \<Rightarrow> mail_op \<Rightarrow> nat"
  code_returned :: "mail_op list \<Rightarrow> mail_op \<Rightarrow> int"
  last_error :: "mail_op list \<Rightarrow> nat \<Rightarrow> string \<times> mail_error"
  backends_equal :: "mail_op list \<Rightarrow> nat \<Rightarrow> nat \<Rightarrow> bool"

text \<open>
  \<^verbatim>\<open>struct sieve_exec_status\<close> is filled in for the host. What \<^verbatim>\<open>sieve_result_log\<close>,
  \<^verbatim>\<open>sieve_result_error\<close> and \<^verbatim>\<open>sieve_result_warning\<close> report is kept in \<open>result_log\<close>, one
  constructor for each message of the store action, with the mailbox name that the message
  prints (through \<^verbatim>\<open>str_sanitize\<close>).
\<close>

record sieve_exec_status =
  message_saved :: bool
  tried_default_save :: bool
  last_storage :: "nat option"
  keep_original :: bool

datatype store_message =
  Log_store_skipped string
| Log_left_in_mailbox string
| Error_no_namespace string
| Error_store_failed string string
| Log_store_aborted string
| Log_stored string
| Error_invalid_keywords

record action_world =
  mail_ops :: "mail_op list"
  exec_status :: sieve_exec_status
  result_log :: "store_message list"

record sieve_message_data =
  msg_id :: "string option"
  mail :: nat
  mail_box :: nat

record 'h sieve_action_exec_env =
  aenv_scriptenv :: "'h sieve_script_env"
  msgdata :: sieve_message_data

text \<open>
  \<^verbatim>\<open>struct act_store_transaction\<close>, allocated with \<^verbatim>\<open>p_new\<close>, which fills it with zeros. The
  fields \<^verbatim>\<open>context\<close>, \<^verbatim>\<open>namespace\<close> and \<^verbatim>\<open>keywords\<close> are \<open>tr_context\<close>, \<open>tr_namespace\<close> and
  \<open>tr_keywords\<close> here. The field
  \<^verbatim>\<open>folder\<close> is assigned from a local variable that is set only when a mailbox was looked
  up: \<open>None\<close> stands for the pointer that was never set.
\<close>

record act_store_transaction =
  tr_context :: act_store_context
  tr_namespace :: "mail_namespace option"
  folder :: "string option"
  box :: "nat option"
  mail_trans :: "nat option"
  dest_mail :: "nat option"
  error :: "string option"
  error_code :: mail_error
  flags :: nat
  tr_keywords :: "string list option"
  flags_altered :: bool
  disabled :: bool
  redundant :: bool

definition mail_call :: "mail_op \<Rightarrow> action_world \<Rightarrow> action_world" where
  "mail_call op w = w\<lparr>mail_ops := mail_ops w @ [op]\<rparr>"

definition set_last_storage :: "nat option \<Rightarrow> action_world \<Rightarrow> action_world" where
  "set_last_storage s w = w\<lparr>exec_status := (exec_status w)\<lparr>last_storage := s\<rparr>\<rparr>"

definition sieve_result_log :: "store_message \<Rightarrow> action_world \<Rightarrow> action_world" where
  "sieve_result_log m w = w\<lparr>result_log := result_log w @ [m]\<rparr>"

text \<open>
  \<^verbatim>\<open>
  static struct mailbox *act_store_mailbox_open
  (const struct sieve_action_exec_env *aenv, const char **mailbox,
      struct mail_namespace **ns_r, const char **folder_r)
  {
      struct mail_storage **storage = &(aenv->exec_status->last_storage);
      enum mailbox_flags flags =
          MAILBOX_FLAG_KEEP_RECENT | MAILBOX_FLAG_SAVEONLY |
          MAILBOX_FLAG_POST_SESSION;
      struct mailbox *box;
      enum mail_error error;

      if (strcasecmp(*mailbox, "INBOX") == 0) {
          /* Deliveries to INBOX must always succeed, regardless of ACLs */
          flags |= MAILBOX_FLAG_IGNORE_ACLS;
      }

      *folder_r = *mailbox;
      *ns_r = mail_namespace_find(aenv->scriptenv->namespaces, folder_r);
      if ( *ns_r == NULL) {
          *storage = NULL;
          return NULL;
      }

      if ( **folder_r == '\0' ) {
          /* delivering to a namespace prefix means we actually want to
           * deliver to the INBOX instead
           */
          *folder_r = *mailbox = "INBOX";
          flags |= MAILBOX_FLAG_IGNORE_ACLS;

          *ns_r = mail_namespace_find(aenv->scriptenv->namespaces, folder_r);
          if ( *ns_r == NULL) {
              *storage = NULL;
              return NULL;
          }

          *storage = (*ns_r)->storage;
      }

      /* First attempt at opening the box */
      box = mailbox_alloc((*ns_r)->list, *folder_r, NULL, flags);
      if ( mailbox_open(box) == 0 ) {
          /* Success */
          return box;
      }

      /* Failed */

      *storage = mailbox_get_storage(box);
      (void)mail_storage_get_last_error(*storage, &error);

      /* Only continue when the mailbox is missing and when we are allowed to
       * create it.
       */
      if ( !aenv->scriptenv->mailbox_autocreate || error != MAIL_ERROR_NOTFOUND ) {
          mailbox_close(&box);
          return NULL;
      }

      /* Try creating it. */
      if ( mailbox_create(box, NULL, FALSE) < 0 ) {
          (void)mail_storage_get_last_error(*storage, &error);
          mailbox_close(&box);
          return NULL;
      }

      /* Subscribe to it if required */
      if ( aenv->scriptenv->mailbox_autosubscribe ) {
          (void)mailbox_list_set_subscribed((*ns_r)->list, *folder_r, TRUE);
      }

      /* Try opening again */
      if ( mailbox_open(box) < 0 || mailbox_sync(box, 0, 0, NULL) < 0 ) {
          /* Failed definitively */
          mailbox_close(&box);
          return NULL;
      }

      return box;
  }
  \<close>
  The function is split in two: the lookup of the namespace, and \<open>act_store_mailbox_try\<close>
  for what follows \<^verbatim>\<open>mailbox_alloc\<close>. The result gives the mailbox returned, the mailbox
  name (which the function may replace), the namespace and the folder.
\<close>

definition act_store_mailbox_try ::
  "mail_storage \<Rightarrow> 'h sieve_script_env \<Rightarrow> mail_namespace \<Rightarrow> string \<Rightarrow> mailbox_flag list \<Rightarrow>
   action_world \<Rightarrow> nat option \<times> action_world" where
  "act_store_mailbox_try ms senv ns fld flgs w =
     (let op_alloc = Mailbox_alloc (ns_list ns) fld flgs;
          b = handle_returned ms (mail_ops w) op_alloc;
          w1 = mail_call op_alloc w;
          opened = code_returned ms (mail_ops w1) (Mailbox_open b);
          w2 = mail_call (Mailbox_open b) w1
      in if opened = 0 then (Some b, w2)
         else
           let st = handle_returned ms (mail_ops w2) (Mailbox_get_storage b);
               w3 = set_last_storage (Some st) (mail_call (Mailbox_get_storage b) w2);
               err = snd (last_error ms (mail_ops w3) st);
               w4 = mail_call (Mail_storage_get_last_error st) w3
           in if \<not> mailbox_autocreate senv \<or> err \<noteq> MAIL_ERROR_NOTFOUND
              then (None, mail_call (Mailbox_close b) w4)
              else
                let created = code_returned ms (mail_ops w4) (Mailbox_create b);
                    w5 = mail_call (Mailbox_create b) w4
                in if created < 0
                   then (None, mail_call (Mailbox_close b)
                                 (mail_call (Mail_storage_get_last_error st) w5))
                   else
                     let w6 = (if mailbox_autosubscribe senv
                               then mail_call (Mailbox_list_set_subscribed (ns_list ns) fld) w5
                               else w5);
                         reopened = code_returned ms (mail_ops w6) (Mailbox_open b);
                         w7 = mail_call (Mailbox_open b) w6
                     in if reopened < 0 then (None, mail_call (Mailbox_close b) w7)
                        else
                          let synced = code_returned ms (mail_ops w7) (Mailbox_sync b);
                              w8 = mail_call (Mailbox_sync b) w7
                          in if synced < 0 then (None, mail_call (Mailbox_close b) w8)
                             else (Some b, w8))"

definition act_store_mailbox_open ::
  "mail_storage \<Rightarrow> 'h sieve_script_env \<Rightarrow> nat \<Rightarrow> string \<Rightarrow> action_world \<Rightarrow>
   nat option \<times> string \<times> mail_namespace option \<times> string \<times> action_world" where
  "act_store_mailbox_open ms senv nss mbox w =
     (let flgs0 = [MAILBOX_FLAG_KEEP_RECENT, MAILBOX_FLAG_SAVEONLY, MAILBOX_FLAG_POST_SESSION];
          flgs1 = (if strcasecmp mbox ''INBOX'' = 0 then flgs0 @ [MAILBOX_FLAG_IGNORE_ACLS]
                   else flgs0);
          found = namespace_found ms (mail_ops w) nss mbox;
          w1 = mail_call (Mail_namespace_find nss mbox) w
      in case found of
           None \<Rightarrow> (None, mbox, None, mbox, set_last_storage None w1)
         | Some (ns, fld) \<Rightarrow>
             if fld = [] then
               (let flgs2 = flgs1 @ [MAILBOX_FLAG_IGNORE_ACLS];
                    found2 = namespace_found ms (mail_ops w1) nss ''INBOX'';
                    w2 = mail_call (Mail_namespace_find nss ''INBOX'') w1
                in case found2 of
                     None \<Rightarrow> (None, ''INBOX'', None, ''INBOX'', set_last_storage None w2)
                   | Some (ns2, fld2) \<Rightarrow>
                       (case act_store_mailbox_try ms senv ns2 fld2 flgs2
                               (set_last_storage (Some (ns_storage ns2)) w2) of
                          (b, w3) \<Rightarrow> (b, ''INBOX'', Some ns2, fld2, w3)))
             else
               (case act_store_mailbox_try ms senv ns fld flgs1 w1 of
                  (b, w3) \<Rightarrow> (b, mbox, Some ns, fld, w3)))"

text \<open>
  \<^verbatim>\<open>
  void sieve_act_store_get_storage_error
  (const struct sieve_action_exec_env *aenv, struct act_store_transaction *trans)
  {
      pool_t pool = sieve_result_pool(aenv->result);

      trans->error = p_strdup(pool,
          mail_storage_get_last_error(trans->namespace->storage, &trans->error_code));
  }
  \<close>
  Without a namespace the function follows a NULL pointer; its callers check the namespace
  first, and the model leaves the transaction as it is there.
\<close>

definition sieve_act_store_get_storage_error ::
  "mail_storage \<Rightarrow> act_store_transaction \<Rightarrow> action_world \<Rightarrow>
   act_store_transaction \<times> action_world" where
  "sieve_act_store_get_storage_error ms tr w =
     (case tr_namespace tr of
        None \<Rightarrow> (tr, w)
      | Some ns \<Rightarrow>
          (case last_error ms (mail_ops w) (ns_storage ns) of
             (msg, ec) \<Rightarrow>
               (tr\<lparr>error := Some msg, error_code := ec\<rparr>,
                mail_call (Mail_storage_get_last_error (ns_storage ns)) w)))"

text \<open>
  \<^verbatim>\<open>
  static bool act_store_start
  (const struct sieve_action *action,
      const struct sieve_action_exec_env *aenv, void **tr_context)
  {
      struct act_store_context *ctx = (struct act_store_context *) action->context;
      const struct sieve_script_env *senv = aenv->scriptenv;
      const struct sieve_message_data *msgdata = aenv->msgdata;
      struct act_store_transaction *trans;
      struct mail_namespace *ns = NULL;
      struct mailbox *box = NULL;
      const char *folder;
      pool_t pool = sieve_result_pool(aenv->result);
      bool disabled = FALSE, redundant = FALSE;

      /* If context is NULL, the store action is the result of (implicit) keep */
      if ( ctx == NULL ) {
          ctx = p_new(pool, struct act_store_context, 1);
          ctx->mailbox = p_strdup(pool, SIEVE_SCRIPT_DEFAULT_MAILBOX(senv));
      }

      /* Open the requested mailbox */

      /* NOTE: The caller of the sieve library is allowed to leave namespaces set
       * to NULL. This implementation will then skip actually storing the message.
       */
      if ( senv->namespaces != NULL ) {
          box = act_store_mailbox_open(aenv, &ctx->mailbox, &ns, &folder);

          /* Check whether we are trying to store the message in the folder it
           * originates from. In that case we skip actually storing it.
           */
          if ( box != NULL && mailbox_backends_equal(box, msgdata->mail->box) ) {
              mailbox_close(&box);
              box = NULL;
              ns = NULL;
              redundant = TRUE;
          }
      } else {
          disabled = TRUE;
      }

      /* Create transaction context */
      trans = p_new(pool, struct act_store_transaction, 1);

      trans->context = ctx;
      trans->namespace = ns;
      trans->folder = folder;
      trans->box = box;
      trans->flags = 0;

      trans->disabled = disabled;
      trans->redundant = redundant;

      if ( ns != NULL && box == NULL )
          sieve_act_store_get_storage_error(aenv, trans);

      *tr_context = (void *)trans;

      return ( (box != NULL)
          || (trans->error_code == MAIL_ERROR_NOTFOUND)
          || disabled || redundant );
  }
  \<close>
  The result gives the value returned, the transaction stored in \<^verbatim>\<open>*tr_context\<close> and the
  world after the calls.
\<close>

definition new_transaction ::
  "act_store_context \<Rightarrow> mail_namespace option \<Rightarrow> string option \<Rightarrow> nat option \<Rightarrow>
   bool \<Rightarrow> bool \<Rightarrow> act_store_transaction" where
  "new_transaction ctx ns fld b dis red =
     \<lparr>tr_context = ctx, tr_namespace = ns, folder = fld, box = b, mail_trans = None,
      dest_mail = None, error = None, error_code = MAIL_ERROR_NONE, flags = 0,
      tr_keywords = None, flags_altered = False, disabled = dis, redundant = red\<rparr>"

definition act_store_start ::
  "mail_storage \<Rightarrow> sieve_action \<Rightarrow> 'h sieve_action_exec_env \<Rightarrow> action_world \<Rightarrow>
   bool \<times> act_store_transaction \<times> action_world" where
  "act_store_start ms action aenv w =
     (let senv = aenv_scriptenv aenv;
          ctx = (case act_context action of
                   None \<Rightarrow> \<lparr>mailbox = SIEVE_SCRIPT_DEFAULT_MAILBOX senv\<rparr>
                 | Some c \<Rightarrow> c)
      in case namespaces senv of
           None \<Rightarrow>
             (let trans = new_transaction ctx None None None True False
              in (box trans \<noteq> None \<or> error_code trans = MAIL_ERROR_NOTFOUND \<or> True \<or> False,
                  trans, w))
         | Some nss \<Rightarrow>
             (case act_store_mailbox_open ms senv nss (mailbox ctx) w of
                (b, mbox, ns, fld, w1) \<Rightarrow>
                  (let ctx1 = ctx\<lparr>mailbox := mbox\<rparr>;
                       same = (case b of
                                 None \<Rightarrow> False
                               | Some bx \<Rightarrow>
                                   backends_equal ms (mail_ops w1) bx (mail_box (msgdata aenv)));
                       w2 = (case b of
                               None \<Rightarrow> w1
                             | Some bx \<Rightarrow>
                                 mail_call (Mailbox_backends_equal bx (mail_box (msgdata aenv))) w1);
                       w3 = (case b of
                               None \<Rightarrow> w2
                             | Some bx \<Rightarrow> if same then mail_call (Mailbox_close bx) w2 else w2);
                       b1 = (if same then None else b);
                       ns1 = (if same then None else ns);
                       trans = new_transaction ctx1 ns1 (Some fld) b1 False same
                   in case (if ns1 \<noteq> None \<and> b1 = None
                            then sieve_act_store_get_storage_error ms trans w3
                            else (trans, w3)) of
                        (trans1, w4) \<Rightarrow>
                          (b1 \<noteq> None \<or> error_code trans1 = MAIL_ERROR_NOTFOUND \<or> False \<or> same,
                           trans1, w4))))"

text \<open>
  \<^verbatim>\<open>
  static struct mail_keywords *act_store_keywords_create
  (const struct sieve_action_exec_env *aenv, ARRAY_TYPE(const_string) *keywords,
      struct mailbox *box)
  {
      struct mail_keywords *box_keywords = NULL;

      if ( array_is_created(keywords) && array_count(keywords) > 0 )
      {
          const char *const *kwds;

          (void)array_append_space(keywords);
          kwds = array_idx(keywords, 0);

          /* FIXME: Do we need to clear duplicates? */
          if ( mailbox_keywords_create(box, kwds, &box_keywords) < 0) {
              sieve_result_error(aenv, "invalid keywords set for stored message");
              return NULL;
          }
      }

      return box_keywords;
  }
  \<close>
\<close>

definition act_store_keywords_create ::
  "mail_storage \<Rightarrow> string list option \<Rightarrow> nat \<Rightarrow> action_world \<Rightarrow> nat option \<times> action_world" where
  "act_store_keywords_create ms kws b w =
     (case kws of
        None \<Rightarrow> (None, w)
      | Some ks \<Rightarrow>
          if length ks > 0 then
            (let op_create = Mailbox_keywords_create b ks;
                 w1 = mail_call op_create w
             in if code_returned ms (mail_ops w) op_create < 0
                then (None, sieve_result_log Error_invalid_keywords w1)
                else (Some (handle_returned ms (mail_ops w) op_create), w1))
          else (None, w))"

text \<open>
  \<^verbatim>\<open>
  static bool act_store_execute
  (const struct sieve_action *action ATTR_UNUSED,
      const struct sieve_action_exec_env *aenv, void *tr_context)
  {
      struct act_store_transaction *trans =
          (struct act_store_transaction *) tr_context;
      const struct sieve_message_data *msgdata = aenv->msgdata;
      struct mail_save_context *save_ctx;
      struct mail_keywords *keywords = NULL;
      bool result = TRUE;

      /* Verify transaction */
      if ( trans == NULL ) return FALSE;

      /* Check whether we need to do anything */
      if ( trans->disabled ) return TRUE;

      /* If the message originates from the target mailbox, only update the flags
       * and keywords
       */
      if ( trans->redundant ) {
          if ( trans->flags_altered ) {
              keywords = act_store_keywords_create
                  (aenv, &trans->keywords, msgdata->mail->box);

              if ( keywords != NULL ) {
                  mail_update_keywords(msgdata->mail, MODIFY_REPLACE, keywords);
                  mailbox_keywords_unref(trans->box, &keywords);
              }

              mail_update_flags(msgdata->mail, MODIFY_REPLACE, trans->flags);
          }

          return TRUE;
      }

      /* Exit early if namespace or mailbox are not available */
      if ( trans->namespace == NULL )
          return FALSE;
      else if ( trans->box == NULL )
          return FALSE;

      /* Mark attempt to store in default mailbox */
      if ( strcmp(trans->context->mailbox,
          SIEVE_SCRIPT_DEFAULT_MAILBOX(aenv->scriptenv)) == 0 )
          aenv->exec_status->tried_default_save = TRUE;

      /* Mark attempt to use storage. Can only get here when all previous actions
       * succeeded.
       */
      aenv->exec_status->last_storage = mailbox_get_storage(trans->box);

      /* Start mail transaction */
      trans->mail_trans = mailbox_transaction_begin
          (trans->box, MAILBOX_TRANSACTION_FLAG_EXTERNAL);

      /* Create mail object for stored message */
      trans->dest_mail = mail_alloc(trans->mail_trans, 0, NULL);

      /* Store the message */
      save_ctx = mailbox_save_alloc(trans->mail_trans);
      mailbox_save_set_dest_mail(save_ctx, trans->dest_mail);

      /* Apply keywords and flags that side-effects may have added */
      if ( trans->flags_altered ) {
          keywords = act_store_keywords_create(aenv, &trans->keywords, trans->box);

          mailbox_save_set_flags(save_ctx, trans->flags, keywords);
      }

      if ( mailbox_copy(&save_ctx, aenv->msgdata->mail) < 0 ) {
          sieve_act_store_get_storage_error(aenv, trans);
          result = FALSE;
      }

      /* Deallocate keywords */
      if ( keywords != NULL ) {
          mailbox_keywords_unref(trans->box, &keywords);
      }

      return result;
  }
  \<close>
  The transaction is \<open>None\<close> when \<^verbatim>\<open>tr_context\<close> is NULL. \<open>act_store_execute_copy\<close> is the
  part of the function that follows the early exits, for a transaction with a namespace
  \<open>ns\<close> and a mailbox \<open>b\<close>.
\<close>

definition act_store_execute_copy ::
  "mail_storage \<Rightarrow> 'h sieve_action_exec_env \<Rightarrow> act_store_transaction \<Rightarrow> nat \<Rightarrow>
   action_world \<Rightarrow> bool \<times> act_store_transaction \<times> action_world" where
  "act_store_execute_copy ms aenv tr b w =
     (let w1 = (if strcmp (mailbox (tr_context tr))
                     (SIEVE_SCRIPT_DEFAULT_MAILBOX (aenv_scriptenv aenv)) = 0
                then w\<lparr>exec_status := (exec_status w)\<lparr>tried_default_save := True\<rparr>\<rparr>
                else w);
          st = handle_returned ms (mail_ops w1) (Mailbox_get_storage b);
          w2 = set_last_storage (Some st) (mail_call (Mailbox_get_storage b) w1);
          mt = handle_returned ms (mail_ops w2) (Mailbox_transaction_begin b);
          w3 = mail_call (Mailbox_transaction_begin b) w2;
          dm = handle_returned ms (mail_ops w3) (Mail_alloc mt);
          w4 = mail_call (Mail_alloc mt) w3;
          sc = handle_returned ms (mail_ops w4) (Mailbox_save_alloc mt);
          w5 = mail_call (Mailbox_save_set_dest_mail sc dm) (mail_call (Mailbox_save_alloc mt) w4);
          tr1 = tr\<lparr>mail_trans := Some mt, dest_mail := Some dm\<rparr>
      in case (if flags_altered tr1
               then (case act_store_keywords_create ms (tr_keywords tr1) b w5 of
                       (kw, w6) \<Rightarrow>
                         (kw, mail_call (Mailbox_save_set_flags sc (flags tr1) kw) w6))
               else (None, w5)) of
           (kw, w7) \<Rightarrow>
             (let copied = code_returned ms (mail_ops w7) (Mailbox_copy sc (mail (msgdata aenv)));
                  w8 = mail_call (Mailbox_copy sc (mail (msgdata aenv))) w7
              in case (if copied < 0
                       then (case sieve_act_store_get_storage_error ms tr1 w8 of
                               (tr2, w9) \<Rightarrow> (False, tr2, w9))
                       else (True, tr1, w8)) of
                   (res, tr3, w10) \<Rightarrow>
                     (res, tr3,
                      (case kw of
                         None \<Rightarrow> w10
                       | Some k \<Rightarrow> mail_call (Mailbox_keywords_unref (box tr3) k) w10))))"

definition act_store_execute ::
  "mail_storage \<Rightarrow> 'h sieve_action_exec_env \<Rightarrow> act_store_transaction option \<Rightarrow>
   action_world \<Rightarrow> bool \<times> act_store_transaction option \<times> action_world" where
  "act_store_execute ms aenv tr_context_arg w =
     (case tr_context_arg of
        None \<Rightarrow> (False, None, w)
      | Some tr \<Rightarrow>
          if disabled tr then (True, Some tr, w)
          else if redundant tr then
            (if flags_altered tr then
               (case act_store_keywords_create ms (tr_keywords tr) (mail_box (msgdata aenv)) w of
                  (kw, w1) \<Rightarrow>
                    (let w2 = (case kw of
                                 None \<Rightarrow> w1
                               | Some k \<Rightarrow>
                                   mail_call (Mailbox_keywords_unref (box tr) k)
                                     (mail_call (Mail_update_keywords (mail (msgdata aenv)) k) w1))
                     in (True, Some tr,
                         mail_call (Mail_update_flags (mail (msgdata aenv)) (flags tr)) w2)))
             else (True, Some tr, w))
          else
            (case tr_namespace tr of
               None \<Rightarrow> (False, Some tr, w)
             | Some ns \<Rightarrow>
                 (case box tr of
                    None \<Rightarrow> (False, Some tr, w)
                  | Some b \<Rightarrow>
                      (case act_store_execute_copy ms aenv tr b w of
                         (res, tr1, w1) \<Rightarrow> (res, Some tr1, w1)))))"

text \<open>
  \<^verbatim>\<open>
  static void act_store_log_status
  (struct act_store_transaction *trans,
      const struct sieve_action_exec_env *aenv, bool rolled_back, bool status )
  {
      const char *mailbox_name;

      mailbox_name = str_sanitize(trans->context->mailbox, 128);

      /* Store disabled? */
      if ( trans->disabled ) {
          sieve_result_log(aenv, "store into mailbox '%s' skipped", mailbox_name);

      /* Store redundant? */
      } else if ( trans->redundant ) {
          sieve_result_log(aenv, "left message in mailbox '%s'", mailbox_name);

      /* Namespace not set? */
      } else if ( trans->namespace == NULL ) {
          sieve_result_error
              (aenv, "failed to find namespace for mailbox '%s'", mailbox_name);

      /* Store failed? */
      } else if ( !status ) {
          const char *errstr;
          enum mail_error error;

          if ( trans->error != NULL )
              errstr = trans->error;
          else
              errstr = mail_storage_get_last_error(trans->namespace->storage, &error);

          sieve_result_error(aenv, "failed to store into mailbox '%s': %s",
              mailbox_name, errstr);

      /* Store aborted? */
      } else if ( rolled_back ) {
          sieve_result_log(aenv, "store into mailbox '%s' aborted", mailbox_name);

      /* Succeeded */
      } else {
          sieve_result_log(aenv, "stored mail into mailbox '%s'", mailbox_name);

      }
  }
  \<close>
\<close>

definition act_store_log_status ::
  "mail_storage \<Rightarrow> act_store_transaction \<Rightarrow> bool \<Rightarrow> bool \<Rightarrow> action_world \<Rightarrow> action_world" where
  "act_store_log_status ms tr rolled_back status w =
     (let mailbox_name = mailbox (tr_context tr)
      in if disabled tr then sieve_result_log (Log_store_skipped mailbox_name) w
         else if redundant tr then sieve_result_log (Log_left_in_mailbox mailbox_name) w
         else
           (case tr_namespace tr of
              None \<Rightarrow> sieve_result_log (Error_no_namespace mailbox_name) w
            | Some ns \<Rightarrow>
                if \<not> status then
                  (case error tr of
                     Some errstr \<Rightarrow>
                       sieve_result_log (Error_store_failed mailbox_name errstr) w
                   | None \<Rightarrow>
                       sieve_result_log
                         (Error_store_failed mailbox_name
                            (fst (last_error ms (mail_ops w) (ns_storage ns))))
                         (mail_call (Mail_storage_get_last_error (ns_storage ns)) w))
                else if rolled_back then sieve_result_log (Log_store_aborted mailbox_name) w
                else sieve_result_log (Log_stored mailbox_name) w))"

text \<open>
  \<^verbatim>\<open>
  static bool act_store_commit
  (const struct sieve_action *action ATTR_UNUSED,
      const struct sieve_action_exec_env *aenv, void *tr_context, bool *keep)
  {
      struct act_store_transaction *trans =
          (struct act_store_transaction *) tr_context;
      bool status = TRUE;

      /* Verify transaction */
      if ( trans == NULL ) return FALSE;

      /* Check whether we need to do anything */
      if ( trans->disabled ) {
          act_store_log_status(trans, aenv, FALSE, status);
          *keep = FALSE;
          return TRUE;
      } else if ( trans->redundant ) {
          act_store_log_status(trans, aenv, FALSE, status);
          aenv->exec_status->keep_original = TRUE;
          aenv->exec_status->message_saved = TRUE;
          return TRUE;
      }

      /* Exit early if namespace is not available */
      if ( trans->namespace == NULL )
          return FALSE;
      else if ( trans->box == NULL )
          return FALSE;

      /* Mark attempt to use storage. Can only get here when all previous actions
       * succeeded.
       */
      aenv->exec_status->last_storage = trans->namespace->storage;

      /* Free mail object for stored message */
      if ( trans->dest_mail != NULL )
          mail_free(&trans->dest_mail);

      /* Commit mailbox transaction */
      status = ( mailbox_transaction_commit(&trans->mail_trans) == 0 );

      /* Note the fact that the message was stored at least once */
      if ( status )
          aenv->exec_status->message_saved = TRUE;

      /* Log our status */
      act_store_log_status(trans, aenv, FALSE, status);

      /* Cancel implicit keep if all went well */
      *keep = !status;

      /* Close mailbox */
      if ( trans->box != NULL )
          mailbox_close(&trans->box);

      return status;
  }
  \<close>
  The result gives the value returned, the value of \<^verbatim>\<open>*keep\<close> (which the caller passes as
  \<open>keep\<close>), the transaction and the world. A transaction that reaches the commit of the
  mailbox transaction without one (\<^verbatim>\<open>mail_trans\<close> is NULL) hands the library a NULL pointer:
  the model takes the library's answer for the handle 0 there.
\<close>

definition act_store_commit ::
  "mail_storage \<Rightarrow> 'h sieve_action_exec_env \<Rightarrow> act_store_transaction option \<Rightarrow> bool \<Rightarrow>
   action_world \<Rightarrow> bool \<times> bool \<times> act_store_transaction option \<times> action_world" where
  "act_store_commit ms aenv tr_context_arg keep w =
     (case tr_context_arg of
        None \<Rightarrow> (False, keep, None, w)
      | Some tr \<Rightarrow>
          if disabled tr then
            (True, False, Some tr, act_store_log_status ms tr False True w)
          else if redundant tr then
            (let w1 = act_store_log_status ms tr False True w
             in (True, keep, Some tr,
                 w1\<lparr>exec_status := (exec_status w1)\<lparr>keep_original := True,
                                                      message_saved := True\<rparr>\<rparr>))
          else
            (case tr_namespace tr of
               None \<Rightarrow> (False, keep, Some tr, w)
             | Some ns \<Rightarrow>
                 (case box tr of
                    None \<Rightarrow> (False, keep, Some tr, w)
                  | Some b \<Rightarrow>
                      (let w1 = set_last_storage (Some (ns_storage ns)) w;
                           w2 = (case dest_mail tr of
                                   None \<Rightarrow> w1
                                 | Some dm \<Rightarrow> mail_call (Mail_free dm) w1);
                           mt = (case mail_trans tr of None \<Rightarrow> 0 | Some t \<Rightarrow> t);
                           status = (code_returned ms (mail_ops w2)
                                       (Mailbox_transaction_commit mt) = 0);
                           w3 = mail_call (Mailbox_transaction_commit mt) w2;
                           w4 = (if status
                                 then w3\<lparr>exec_status := (exec_status w3)\<lparr>message_saved := True\<rparr>\<rparr>
                                 else w3);
                           tr1 = tr\<lparr>dest_mail := None, mail_trans := None\<rparr>;
                           w5 = act_store_log_status ms tr1 False status w4;
                           w6 = mail_call (Mailbox_close b) w5
                       in (status, \<not> status, Some (tr1\<lparr>box := None\<rparr>), w6)))))"

section \<open>Match types\<close>

subsection \<open>The core match type \<^verbatim>\<open>:matches\<close>\<close>

text \<open>
  \<^verbatim>\<open>
  static bool mtch_matches_match
  (struct sieve_match_context *mctx, const char *val, size_t val_size,
      const char *key, size_t key_size, int key_index ATTR_UNUSED)
  {
      return FALSE;
  }

  const struct sieve_match_type matches_match_type = {
      "matches",
      SIEVE_MATCH_TYPE_MATCHES,
      NULL,
      0,
      NULL,
      mtch_contains_validate_context,
      NULL,
      mtch_matches_match,
      NULL
  };
  \<close>
  Of a match type the model keeps the identifier (\<open>mt_identifier\<close>) and the \<^verbatim>\<open>match\<close> function, NULL for a match
  type that is not implemented. The match context is not read by \<open>mtch_matches_match\<close> and
  is a parameter of any type.
\<close>

definition mtch_matches_match ::
  "'c \<Rightarrow> string \<Rightarrow> nat \<Rightarrow> string \<Rightarrow> nat \<Rightarrow> int \<Rightarrow> bool" where
  "mtch_matches_match mctx val val_size key key_size key_index = False"

record 'c sieve_match_type =
  mt_identifier :: string
  match_fn :: "('c \<Rightarrow> string \<Rightarrow> nat \<Rightarrow> string \<Rightarrow> nat \<Rightarrow> int \<Rightarrow> bool) option"

definition matches_match_type :: "'c sieve_match_type" where
  "matches_match_type = \<lparr>mt_identifier = ''matches'', match_fn = Some mtch_matches_match\<rparr>"

text \<open>
  \<^verbatim>\<open>
  bool sieve_match_value
      (struct sieve_match_context *mctx, const char *value)
  {
      const struct sieve_match_type *mtch = mctx->match_type;
      unsigned int key_index;
      string_t *key_item;
      sieve_coded_stringlist_reset(mctx->key_list);

      /* Reject unimplemented match-type */
      if ( mtch->match == NULL )
          return FALSE;

      /* Match to all key values */
      key_index = 0;
      key_item = NULL;
      while ( sieve_coded_stringlist_next_item(mctx->key_list, &key_item) &&
          key_item != NULL )
      {
          if ( mtch->match
              (mctx, value, strlen(value), str_c(key_item),
                  str_len(key_item), key_index) )
              return TRUE;

          key_index++;
      }

      return FALSE;
  }
  \<close>
  The key list of the context is the list of its strings.
\<close>

fun match_keys ::
  "('c \<Rightarrow> string \<Rightarrow> nat \<Rightarrow> string \<Rightarrow> nat \<Rightarrow> int \<Rightarrow> bool) \<Rightarrow> 'c \<Rightarrow> string \<Rightarrow>
   string list \<Rightarrow> int \<Rightarrow> bool" where
  "match_keys m mctx val [] key_index = False"
| "match_keys m mctx val (key_item # rest) key_index =
     (if m mctx val (length val) key_item (length key_item) key_index then True
      else match_keys m mctx val rest (key_index + 1))"

definition sieve_match_value ::
  "'c sieve_match_type \<Rightarrow> 'c \<Rightarrow> string list \<Rightarrow> string \<Rightarrow> bool" where
  "sieve_match_value mtch mctx key_list val =
     (case match_fn mtch of
        None \<Rightarrow> False
      | Some m \<Rightarrow> match_keys m mctx val key_list 0)"

text \<open>
  The words of the specification for \<^verbatim>\<open>:matches\<close>: "glob (\<open>*\<close>, \<open>?\<close>) with escaping of \<open>\*\<close>
  and \<open>\?\<close>", where \<open>*\<close> matches any sequence of characters and \<open>?\<close> any single character,
  the key matches the whole value, and characters are compared after the comparator's case
  folding \<open>cfold\<close>. \<open>glob_captures\<close> gives the expansions of the wildcards of the leftmost
  shortest match, the match values \<open>${1}\<close>, \<open>${2}\<close>, ..., or \<open>None\<close> when the key does not
  match.
\<close>

function glob_captures :: "(char \<Rightarrow> char) \<Rightarrow> string \<Rightarrow> string \<Rightarrow> string \<Rightarrow> string list option" where
  "glob_captures cfold [] v acc = (if v = [] then Some [] else None)"
| "glob_captures cfold (k # ks) v acc =
     (if k = CHR ''*'' then
        (case glob_captures cfold ks v [] of
           Some caps \<Rightarrow> Some (rev acc # caps)
         | None \<Rightarrow>
             (case v of
                [] \<Rightarrow> None
              | x # xs \<Rightarrow> glob_captures cfold (k # ks) xs (x # acc)))
      else if k = CHR ''?'' then
        (case v of
           [] \<Rightarrow> None
         | x # xs \<Rightarrow>
             (case glob_captures cfold ks xs [] of
                Some caps \<Rightarrow> Some ([x] # caps)
              | None \<Rightarrow> None))
      else if k = CHR 0x5C \<and> ks \<noteq> [] then
        (case v of
           [] \<Rightarrow> None
         | x # xs \<Rightarrow>
             if cfold x = cfold (hd ks) then glob_captures cfold (tl ks) xs [] else None)
      else
        (case v of
           [] \<Rightarrow> None
         | x # xs \<Rightarrow> if cfold x = cfold k then glob_captures cfold ks xs [] else None))"
  by pat_completeness auto
termination
  by (relation "measure (\<lambda>(cfold, ks, v, acc). 2 * length ks + length v)") auto

definition glob_matches :: "(char \<Rightarrow> char) \<Rightarrow> string \<Rightarrow> string \<Rightarrow> bool" where
  "glob_matches cfold key val = (glob_captures cfold key val [] \<noteq> None)"

subsection \<open>The match type \<^verbatim>\<open>:regex\<close>\<close>

text \<open>
  Modelled from the spec: the match values of the interpreter and the functions
  \<^verbatim>\<open>sieve_match_values_are_enabled\<close>, \<^verbatim>\<open>sieve_match_values_start\<close>, \<^verbatim>\<open>sieve_match_values_add\<close>,
  \<^verbatim>\<open>sieve_match_values_skip\<close> and \<^verbatim>\<open>sieve_match_values_commit\<close> are defined in a file that is
  not among the sources. The spec says: "When a match type emits captures, it first opens a
  match-value set on the interpreter, appends captures in order (skipped captures advance
  the index), and commits atomically at the end of the test", "unmatched groups produce
  empty strings", and models the register "as a builder that atomically replaces the
  interpreter's current set on commit". A set under construction is the list of its values;
  the interpreter holds the committed set.
\<close>

record match_values_interp =
  match_values_enabled :: bool
  match_values :: "string list"


definition sieve_match_values_start :: "match_values_interp \<Rightarrow> string list option" where
  "sieve_match_values_start interp = (if match_values_enabled interp then Some [] else None)"

definition sieve_match_values_add :: "string list \<Rightarrow> string \<Rightarrow> string list" where
  "sieve_match_values_add mvalues s = mvalues @ [s]"

definition sieve_match_values_skip :: "string list \<Rightarrow> nat \<Rightarrow> string list" where
  "sieve_match_values_skip mvalues n = mvalues @ replicate n []"

definition sieve_match_values_commit ::
  "match_values_interp \<Rightarrow> string list \<Rightarrow> match_values_interp" where
  "sieve_match_values_commit interp mvalues = interp\<lparr>match_values := mvalues\<rparr>"

text \<open>
  The POSIX functions \<^verbatim>\<open>regcomp\<close> and \<^verbatim>\<open>regexec\<close> belong to the C library and are parameters
  of the model. A compiled expression has the type \<open>'r\<close>; \<open>regcomp\<close> gives \<open>None\<close> for an
  error. \<open>regexec\<close> is defined on compiled expressions only: it gives \<open>None\<close> for
  \<^verbatim>\<open>REG_NOMATCH\<close> and otherwise what it writes to \<^verbatim>\<open>pmatch\<close>. Of these entries the first
  \<^verbatim>\<open>nmatch\<close> are kept, and entries that the library leaves unused are \<open>-1\<close>, as POSIX has it.
  A \<^verbatim>\<open>regex_t\<close> in the array of the context is \<open>Some r\<close> once \<^verbatim>\<open>regcomp\<close> has compiled it and
  \<open>None\<close> while it holds the zeros of \<^verbatim>\<open>array_idx_clear\<close> or what a \<^verbatim>\<open>regcomp\<close> that failed has
  left there. To call \<^verbatim>\<open>regexec\<close> with such a \<^verbatim>\<open>regex_t\<close> is undefined (the library follows the
  pointers of the structure): the call of the model then has the outcome
  \<open>Uncompiled_regex\<close>, and an assertion that fails has the outcome \<open>Assertion_failed\<close>;
  both end the process.
\<close>

datatype 'a outcome = Assertion_failed | Uncompiled_regex | Returned 'a

datatype regex_cflag = REG_EXTENDED | REG_ICASE | REG_NOSUB

record regmatch_t =
  rm_so :: int
  rm_eo :: int

record 'r regex_library =
  regcomp :: "string \<Rightarrow> regex_cflag list \<Rightarrow> 'r option"
  regexec :: "'r \<Rightarrow> string \<Rightarrow> nat \<Rightarrow> regmatch_t list option"

definition pmatch_written :: "nat \<Rightarrow> regmatch_t list \<Rightarrow> regmatch_t list" where
  "pmatch_written n pm = take n (pm @ replicate n \<lparr>rm_so = - 1, rm_eo = - 1\<rparr>)"

datatype sieve_comparator = I_octet_comparator | I_ascii_casemap_comparator | Other_comparator string

text \<open>
  \<^verbatim>\<open>
  struct mcht_regex_context {
      ARRAY_DEFINE(reg_expressions, regex_t);
      int value_index;
      regmatch_t *pmatch;
      size_t nmatch;
  };

  static void mcht_regex_match_init
  (struct sieve_match_context *mctx)
  {
      pool_t pool = mctx->pool;
      struct mcht_regex_context *ctx;

      /* Create context */
      ctx = p_new(pool, struct mcht_regex_context, 1);
      p_array_init(&ctx->reg_expressions, pool, 4);
      ctx->value_index = -1;

      /* Create storage for match values if match values are requested */
      if ( sieve_match_values_are_enabled(mctx->interp) ) {
          ctx->pmatch = p_new(pool, regmatch_t, MCHT_REGEX_MAX_SUBSTITUTIONS);
          ctx->nmatch = MCHT_REGEX_MAX_SUBSTITUTIONS;
      } else {
          ctx->pmatch = NULL;
          ctx->nmatch = 0;
      }

      /* Assign context */
      mctx->data = (void *) ctx;
  }
  \<close>
  \<^verbatim>\<open>MCHT_REGEX_MAX_SUBSTITUTIONS\<close> is \<^verbatim>\<open>SIEVE_MAX_MATCH_VALUES\<close>, a constant of a header that is
  not among the sources: it is the parameter \<open>max_substitutions\<close>.
\<close>

record 'r mcht_regex_context =
  reg_expressions :: "'r option list"
  value_index :: int
  pmatch :: "regmatch_t list"
  nmatch :: nat

record 'r regex_match_context =
  comparator :: sieve_comparator
  mctx_data :: "'r mcht_regex_context"


text \<open>
  \<^verbatim>\<open>
  static regex_t *mcht_regex_get
  (struct mcht_regex_context *ctx,
      const struct sieve_comparator *cmp,
      const char *key, unsigned int key_index)
  {
      int ret;
      int cflags;
      regex_t *regexp;

      /* If this is the first matched value, the regexes are not compiled
       * yet.
       */
      if ( ctx->value_index <= 0 ) {
          /* Allocate space */
          array_idx_clear(&ctx->reg_expressions, key_index);
          regexp = array_idx_modifiable(&ctx->reg_expressions, key_index);

          /* Configure case-sensitivity according to comparator */
          if ( sieve_comparator_is(cmp, i_octet_comparator) )
              cflags =  REG_EXTENDED;
          else if ( sieve_comparator_is(cmp, i_ascii_casemap_comparator) )
              cflags =  REG_EXTENDED | REG_ICASE;
          else
              return NULL; /* Not supported */

          /* Indicate whether match values need to be produced */
          if ( ctx->nmatch == 0 ) cflags |= REG_NOSUB;

          /* Compile regular expression */
          if ( (ret=regcomp(regexp, key, cflags)) != 0 ) {
              /* FIXME: Do something useful, i.e. report error somewhere */
              return NULL;
          }
      } else {
          /* Get compiled regex from cache */
          regexp = array_idx_modifiable(&ctx->reg_expressions, key_index);
      }

      return regexp;
  }
  \<close>
  The result is \<open>None\<close> for NULL and otherwise the slot of the array, with the context
  after the call. \<^verbatim>\<open>array_idx_clear\<close> and \<^verbatim>\<open>array_idx_modifiable\<close> grow the array with zeroed
  slots up to the index.
\<close>

definition array_grow :: "'a option list \<Rightarrow> nat \<Rightarrow> 'a option list" where
  "array_grow xs i = (if i < length xs then xs else xs @ replicate (Suc i - length xs) None)"

definition mcht_regex_get ::
  "'r regex_library \<Rightarrow> 'r mcht_regex_context \<Rightarrow> sieve_comparator \<Rightarrow> string \<Rightarrow> nat \<Rightarrow>
   'r option option \<times> 'r mcht_regex_context" where
  "mcht_regex_get lib ctx cmp key key_index =
     (if value_index ctx \<le> 0 then
        (let ctx1 = ctx\<lparr>reg_expressions := (array_grow (reg_expressions ctx) key_index)[key_index := None]\<rparr>
         in if cmp \<noteq> I_octet_comparator \<and> cmp \<noteq> I_ascii_casemap_comparator
            then (None, ctx1)
            else
              let cflags0 = (if cmp = I_octet_comparator then [REG_EXTENDED]
                             else [REG_EXTENDED, REG_ICASE]);
                  cflags = (if nmatch ctx1 = 0 then cflags0 @ [REG_NOSUB] else cflags0)
              in (case regcomp lib key cflags of
                    None \<Rightarrow> (None, ctx1)
                  | Some r \<Rightarrow>
                      (Some (Some r),
                       ctx1\<lparr>reg_expressions := (reg_expressions ctx1)[key_index := Some r]\<rparr>)))
      else
        (let ctx1 = ctx\<lparr>reg_expressions := array_grow (reg_expressions ctx) key_index\<rparr>
         in (Some (reg_expressions ctx1 ! key_index), ctx1)))"

text \<open>
  \<^verbatim>\<open>
  static int mcht_regex_match
  (struct sieve_match_context *mctx,
      const char *val, size_t val_size ATTR_UNUSED,
      const char *key, size_t key_size ATTR_UNUSED, int key_index)
  {
      struct mcht_regex_context *ctx = (struct mcht_regex_context *) mctx->data;
      regex_t *regexp;

      if ( val == NULL ) {
          val = "";
          val_size = 0;
      }

      if ( key_index < 0 ) return FALSE;

      if ( key_index == 0 ) ctx->value_index++;

      /* Get compiled regex */
      if ( (regexp=mcht_regex_get(ctx, mctx->comparator, key, key_index)) == NULL )
          return FALSE;

      /* Execute regex */
      if ( regexec(regexp, val, ctx->nmatch, ctx->pmatch, 0) == 0 ) {

          /* Handle match values if necessary */
          if ( ctx->nmatch > 0 ) {
              struct sieve_match_values *mvalues;
              size_t i;
              int skipped = 0;
              string_t *subst = t_str_new(32);

              /* Start new list of match values */
              mvalues = sieve_match_values_start(mctx->interp);

              i_assert( mvalues != NULL );

              /* Add match values from regular expression */
              for ( i = 0; i < ctx->nmatch; i++ ) {
                  str_truncate(subst, 0);

                  if ( ctx->pmatch[i].rm_so != -1 ) {
                      if ( skipped > 0 ) {
                          sieve_match_values_skip(mvalues, skipped);
                          skipped = 0;
                      }

                      str_append_n(subst, val + ctx->pmatch[i].rm_so,
                          ctx->pmatch[i].rm_eo - ctx->pmatch[i].rm_so);
                      sieve_match_values_add(mvalues, subst);
                  } else
                      skipped++;
              }

              /* Substitute the new match values */
              sieve_match_values_commit(mctx->interp, &mvalues);
          }

          return TRUE;
      }

      return FALSE;
  }
  \<close>
  \<open>regex_add_values\<close> is the \<^verbatim>\<open>for\<close> loop over the entries of \<^verbatim>\<open>pmatch\<close>, with the set under
  construction and \<^verbatim>\<open>skipped\<close>. \<open>mcht_regex_get\<close> returns NULL only on the path that compiles;
  on the path that takes the expression from the array the pointer is never NULL, whether
  the slot was compiled or not, and \<^verbatim>\<open>regexec\<close> is called with it. The result of
  \<open>mcht_regex_match\<close> is \<open>Returned\<close> with the value returned, the context and the interpreter
  after the call, or the outcome that ends the process.
\<close>

definition regex_substring :: "string \<Rightarrow> regmatch_t \<Rightarrow> string" where
  "regex_substring val p = take (nat (rm_eo p - rm_so p)) (drop (nat (rm_so p)) val)"

fun regex_add_values :: "string \<Rightarrow> regmatch_t list \<Rightarrow> string list \<Rightarrow> nat \<Rightarrow> string list" where
  "regex_add_values val [] mvalues skipped = mvalues"
| "regex_add_values val (p # ps) mvalues skipped =
     (if rm_so p \<noteq> - 1 then
        regex_add_values val ps
          (sieve_match_values_add
             (if skipped > 0 then sieve_match_values_skip mvalues skipped else mvalues)
             (regex_substring val p))
          0
      else regex_add_values val ps mvalues (skipped + 1))"

definition mcht_regex_match ::
  "'r regex_library \<Rightarrow> 'r regex_match_context \<Rightarrow> match_values_interp \<Rightarrow> string option \<Rightarrow>
   string \<Rightarrow> int \<Rightarrow> (bool \<times> 'r regex_match_context \<times> match_values_interp) outcome" where
  "mcht_regex_match lib mctx interp val_arg key key_index =
     (let ctx = mctx_data mctx;
          val = (case val_arg of None \<Rightarrow> [] | Some v \<Rightarrow> v)
      in if key_index < 0 then Returned (False, mctx, interp)
         else
           let ctx1 = (if key_index = 0 then ctx\<lparr>value_index := value_index ctx + 1\<rparr> else ctx)
           in (case mcht_regex_get lib ctx1 (comparator mctx) key (nat key_index) of
                 (None, ctx2) \<Rightarrow> Returned (False, mctx\<lparr>mctx_data := ctx2\<rparr>, interp)
               | (Some None, ctx2) \<Rightarrow> Uncompiled_regex
               | (Some (Some regexp), ctx2) \<Rightarrow>
                   (case regexec lib regexp val (nmatch ctx2) of
                      None \<Rightarrow> Returned (False, mctx\<lparr>mctx_data := ctx2\<rparr>, interp)
                    | Some pm \<Rightarrow>
                        (let ctx3 = (if nmatch ctx2 > 0
                                     then ctx2\<lparr>pmatch := pmatch_written (nmatch ctx2) pm\<rparr>
                                     else ctx2)
                         in if nmatch ctx3 > 0 then
                              (case sieve_match_values_start interp of
                                 None \<Rightarrow> Assertion_failed
                               | Some mvalues \<Rightarrow>
                                   Returned (True, mctx\<lparr>mctx_data := ctx3\<rparr>,
                                         sieve_match_values_commit interp
                                           (regex_add_values val (pmatch ctx3) mvalues 0)))
                            else Returned (True, mctx\<lparr>mctx_data := ctx3\<rparr>, interp)))))"

text \<open>
  The words of the specification for the captures of a test: each capture group that
  matched gives the substring it matched, at the index of the group, and a group that did
  not match gives the empty string; the set ends with the last group that matched.
\<close>

definition captured_values :: "string \<Rightarrow> regmatch_t list \<Rightarrow> string list" where
  "captured_values val pm =
     map (\<lambda>p. if rm_so p \<noteq> - 1 then regex_substring val p else [])
       (take (length pm - length (takeWhile (\<lambda>p. rm_so p = - 1) (rev pm))) pm)"

section \<open>Binary: addresses, offsets and the code of the active block\<close>

text \<open>
  \<^verbatim>\<open>sieve_size_t\<close> is \<^verbatim>\<open>size_t\<close>: 64 bits on the LP64 platforms the program is built for, with
  C's wrap-around arithmetic.

  Modelled from the spec: the typedef of \<^verbatim>\<open>sieve_offset_t\<close> is in a header that is not among
  the sources. The spec's operands carry a "signed 32-bit offset", "fixed 4 bytes,
  big-endian, two's complement", and \<^verbatim>\<open>sieve_binary_read_offset\<close> stores the offset through
  an \<^verbatim>\<open>int *\<close>: a jump offset is a 32-bit word read as a signed integer.

  The read functions work on the pair \<^verbatim>\<open>binary->code\<close>, \<^verbatim>\<open>binary->code_size\<close>, the bytes of
  the active block and their number, which \<^verbatim>\<open>sieve_binary_block_set_active\<close> sets
  together; the model passes the bytes, and \<open>code_size\<close> is their number.
  \<^verbatim>\<open>
  #define ADDR_CODE_AT(binary, address) (binary->code[*address])
  #define ADDR_DATA_AT(binary, address) ((unsigned char) (binary->code[*address]))
  #define ADDR_BYTES_LEFT(binary, address) (binary->code_size - (*address))
  #define ADDR_JUMP(address, offset) (*address) += offset
  \<close>
  Reading \<^verbatim>\<open>code[*address]\<close> at or beyond \<open>code_size\<close> is undefined behaviour in C: the model
  makes it the outcome \<open>Out_of_bounds\<close>, distinct from every value a function returns.
\<close>

type_synonym sieve_size_t = "64 word"
type_synonym sieve_offset_t = "32 word"

datatype 'a access = Out_of_bounds | Done 'a

definition code_size :: "8 word list \<Rightarrow> sieve_size_t" where
  "code_size cbytes = of_nat (length cbytes)"

definition ADDR_DATA_AT :: "8 word list \<Rightarrow> sieve_size_t \<Rightarrow> 8 word option" where
  "ADDR_DATA_AT cbytes address =
     (if unat address < length cbytes then Some (cbytes ! unat address) else None)"

definition ADDR_BYTES_LEFT :: "8 word list \<Rightarrow> sieve_size_t \<Rightarrow> sieve_size_t" where
  "ADDR_BYTES_LEFT cbytes address = code_size cbytes - address"

text \<open>
  \<^verbatim>\<open>
  bool sieve_binary_read_offset
      (struct sieve_binary *binary, sieve_size_t *address, int *offset)
  {
      uint32_t offs = 0;

      if ( ADDR_BYTES_LEFT(binary, address) >= 4 ) {
        int i;

        for ( i = 0; i < 4; i++ ) {
          offs = (offs << 8) + ADDR_DATA_AT(binary, address);
          ADDR_JUMP(address, 1);
        }

        if ( offset != NULL )
              *offset = (int) offs;

          return TRUE;
      }

      return FALSE;
  }
  \<close>
  The result \<open>Done None\<close> is the return of FALSE, which leaves the address and the offset
  as they were; \<open>Done (Some (a, offs))\<close> is the return of TRUE with the new address and the
  offset read.
\<close>

fun read_offset_loop ::
  "nat \<Rightarrow> 8 word list \<Rightarrow> sieve_size_t \<Rightarrow> 32 word \<Rightarrow> (sieve_size_t \<times> 32 word) access" where
  "read_offset_loop 0 cbytes address offs = Done (address, offs)"
| "read_offset_loop (Suc n) cbytes address offs =
     (case ADDR_DATA_AT cbytes address of
        None \<Rightarrow> Out_of_bounds
      | Some b \<Rightarrow> read_offset_loop n cbytes (address + 1) (push_bit 8 offs + ucast b))"

definition sieve_binary_read_offset ::
  "8 word list \<Rightarrow> sieve_size_t \<Rightarrow> (sieve_size_t \<times> sieve_offset_t) option access" where
  "sieve_binary_read_offset cbytes address =
     (if ADDR_BYTES_LEFT cbytes address \<ge> 4 then
        (case read_offset_loop 4 cbytes address 0 of
           Out_of_bounds \<Rightarrow> Out_of_bounds
         | Done r \<Rightarrow> Done (Some r))
      else Done None)"

section \<open>Binary: blocks and the integer codec\<close>

text \<open>
  \<^verbatim>\<open>
  struct sieve_binary_block {
      buffer_t *buffer;
      int ext_index;
      int ext_id;
      uoff_t offset;
  };
  \<close>
  Of \<^verbatim>\<open>struct sieve_binary\<close> the model keeps the array of block pointers (a NULL pointer is
  \<open>None\<close>), the active block, the buffer \<^verbatim>\<open>data\<close> that the emit functions append to, the
  bytes \<^verbatim>\<open>code\<close> that the read functions see, the file image \<^verbatim>\<open>memory\<close> of a loaded binary,
  and the extensions registered with the binary. \<^verbatim>\<open>data\<close> points to the buffer of a block:
  it is the index of that block, so that what is emitted is in the block. What \<^verbatim>\<open>i_error\<close>
  logs is kept in \<open>errors\<close>. A buffer is the list of its bytes; the buffer of a block that
  was loaded is made by \<^verbatim>\<open>buffer_create_const_data\<close> over the file image and keeps the pointer
  into it: \<open>buffer_origin\<close> is the position in the image where its bytes lie, and \<open>None\<close> for
  a buffer that has its own memory.
\<close>

record sieve_binary_block =
  buffer :: "8 word list option"
  buffer_origin :: "nat option"
  ext_index :: int
  file_offset :: nat

datatype binary_error =
  Header_too_small
| Corrupted_header "32 word"
| No_blocks
| Index_record_unreadable nat
| Index_record_unexpected_id nat "32 word"
| Index_record_corrupt nat
| Block_truncated nat
| Block_unexpected_id nat
| Block_missing_in_index nat
| Block_invalid_size nat "32 word"
| Block_corrupt nat
| Unknown_extension string
| Extension_block_corrupt

record sieve_binary =
  blocks :: "sieve_binary_block option list"
  active_block :: nat
  data :: "nat option"
  code :: "8 word list"
  memory :: "8 word list"
  extensions :: "int list"
  linked_extensions :: "int list"
  errors :: "binary_error list"

text \<open>
  \<^verbatim>\<open>
  static inline struct sieve_binary_block *sieve_binary_block_get
      (struct sieve_binary *sbin, unsigned int id)
  {
      struct sieve_binary_block * const *block;

      if  ( id >= array_count(&sbin->blocks) )
          return NULL;

      block = array_idx(&sbin->blocks, id);
      return *block;
  }

  unsigned int sieve_binary_block_set_active
      (struct sieve_binary *sbin, unsigned int id)
  {
      unsigned int old_id = sbin->active_block;
      struct sieve_binary_block *block = sieve_binary_block_get(sbin, id);

      if ( block != NULL ) {
          sbin->data = block->buffer;
          sbin->code = buffer_get_data(block->buffer, &sbin->code_size);
          sbin->active_block = id;
      }

      return old_id;
  }
  \<close>
  A block whose buffer is still NULL has no bytes.
\<close>

definition sieve_binary_block_get :: "sieve_binary \<Rightarrow> nat \<Rightarrow> sieve_binary_block option" where
  "sieve_binary_block_get sbin ident =
     (if ident \<ge> length (blocks sbin) then None else blocks sbin ! ident)"

definition sieve_binary_block_set_active :: "sieve_binary \<Rightarrow> nat \<Rightarrow> nat \<times> sieve_binary" where
  "sieve_binary_block_set_active sbin ident =
     (let old_id = active_block sbin
      in case sieve_binary_block_get sbin ident of
           None \<Rightarrow> (old_id, sbin)
         | Some block \<Rightarrow>
             (old_id,
              sbin\<lparr>data := Some ident,
                   code := (case buffer block of None \<Rightarrow> [] | Some bs \<Rightarrow> bs),
                   active_block := ident\<rparr>))"

text \<open>
  \<^verbatim>\<open>
  inline sieve_size_t sieve_binary_emit_data
  (struct sieve_binary *binary, void *data, sieve_size_t size)
  {
      sieve_size_t address = buffer_get_used_size(binary->data);

      buffer_append(binary->data, data, size);

      return address;
  }
  \<close>
  Appending through a pointer that is NULL or names no buffer is an access outside every
  object.
\<close>

definition sieve_binary_emit_data ::
  "sieve_binary \<Rightarrow> 8 word list \<Rightarrow> (sieve_size_t \<times> sieve_binary) access" where
  "sieve_binary_emit_data binary bytes =
     (case data binary of
        None \<Rightarrow> Out_of_bounds
      | Some ident \<Rightarrow>
          (case sieve_binary_block_get binary ident of
             None \<Rightarrow> Out_of_bounds
           | Some block \<Rightarrow>
               (case buffer block of
                  None \<Rightarrow> Out_of_bounds
                | Some bs \<Rightarrow>
                    Done (of_nat (length bs),
                          binary\<lparr>blocks :=
                            (blocks binary)[ident := Some (block\<lparr>buffer := Some (bs @ bytes)\<rparr>)]\<rparr>))))"

text \<open>
  \<^verbatim>\<open>
  sieve_size_t sieve_binary_emit_integer
  (struct sieve_binary *binary, sieve_size_t integer)
  {
    int i;
    char buffer[sizeof(sieve_size_t) + 1];
    int bufpos = sizeof(buffer) - 1;

    buffer[bufpos] = integer & 0x7F;
    bufpos--;
    integer >>= 7;
    while ( integer > 0 ) {
      buffer[bufpos] = integer & 0x7F;
      bufpos--;
      integer >>= 7;
    }

    bufpos++;
    if ( (sizeof(buffer) - bufpos) > 1 ) {
      for ( i = bufpos; i < ((int) sizeof(buffer) - 1); i++) {
        buffer[i] |= 0x80;
      }
    }

    return sieve_binary_emit_data(binary, buffer + bufpos, sizeof(buffer) - bufpos);
  }
  \<close>
  With \<^verbatim>\<open>sizeof(sieve_size_t)\<close> = 8 the local buffer has 9 bytes. A write to \<^verbatim>\<open>buffer[bufpos]\<close>
  with \<open>bufpos\<close> outside \<open>0..8\<close> is undefined behaviour: the outcome \<open>Out_of_bounds\<close>. The
  buffer is not initialised; every byte that is emitted is written first, so the model
  starts from zeros. \<open>emit_integer_fill\<close> is the part of the function that fills the
  buffer: it gives the final \<open>bufpos\<close> and the buffer.
\<close>

definition sizeof_sieve_size_t :: nat where
  "sizeof_sieve_size_t = 8"

definition buffer_write :: "8 word list \<Rightarrow> int \<Rightarrow> 8 word \<Rightarrow> 8 word list access" where
  "buffer_write buf pos b =
     (if 0 \<le> pos \<and> nat pos < length buf then Done (buf[nat pos := b]) else Out_of_bounds)"

function emit_integer_loop ::
  "sieve_size_t \<Rightarrow> int \<Rightarrow> 8 word list \<Rightarrow> (int \<times> 8 word list) access" where
  "emit_integer_loop integer bufpos buf =
     (if integer > 0 then
        (case buffer_write buf bufpos (ucast (integer AND 0x7F)) of
           Out_of_bounds \<Rightarrow> Out_of_bounds
         | Done buf' \<Rightarrow> emit_integer_loop (drop_bit 7 integer) (bufpos - 1) buf')
      else Done (bufpos, buf))"
  by pat_completeness auto
termination
proof (relation "measure (\<lambda>(integer, bufpos, buf). unat integer)")
  show "wf (measure (\<lambda>(integer, bufpos, buf). unat integer))" by simp
next
  fix integer :: sieve_size_t and bufpos :: int and buf x2 :: "8 word list"
  assume "0 < integer"
  then have "0 < unat integer" by (simp add: word_less_nat_alt)
  then have "unat integer div 2 ^ 7 < unat integer" by simp
  then have "unat (drop_bit 7 integer) < unat integer"
    by (simp add: drop_bit_eq_div unat_div)
  then show "((drop_bit 7 integer, bufpos - 1, x2), integer, bufpos, buf)
             \<in> measure (\<lambda>(integer, bufpos, buf). unat integer)"
    by simp
qed

declare emit_integer_loop.simps [simp del]

function emit_integer_mark ::
  "int \<Rightarrow> 8 word list \<Rightarrow> 8 word list access" where
  "emit_integer_mark i buf =
     (if i < int (length buf) - 1 then
        (if 0 \<le> i then emit_integer_mark (i + 1) (buf[nat i := (buf ! nat i) OR 0x80])
         else Out_of_bounds)
      else Done buf)"
  by pat_completeness auto
termination
  by (relation "measure (\<lambda>(i, buf). nat (int (length buf) - 1 - i))") auto

declare emit_integer_mark.simps [simp del]

definition emit_integer_fill ::
  "sieve_size_t \<Rightarrow> (int \<times> 8 word list) access" where
  "emit_integer_fill integer =
     (let buf0 = replicate (sizeof_sieve_size_t + 1) (0 :: 8 word);
          bufpos0 = int (length buf0) - 1
      in (case buffer_write buf0 bufpos0 (ucast (integer AND 0x7F)) of
            Out_of_bounds \<Rightarrow> Out_of_bounds
          | Done buf1 \<Rightarrow>
              (case emit_integer_loop (drop_bit 7 integer) (bufpos0 - 1) buf1 of
                 Out_of_bounds \<Rightarrow> Out_of_bounds
               | Done (bufpos2, buf2) \<Rightarrow>
                   (if int (length buf2) - (bufpos2 + 1) > 1
                    then (case emit_integer_mark (bufpos2 + 1) buf2 of
                            Out_of_bounds \<Rightarrow> Out_of_bounds
                          | Done buf3 \<Rightarrow> Done (bufpos2 + 1, buf3))
                    else Done (bufpos2 + 1, buf2)))))"

definition sieve_binary_emit_integer ::
  "sieve_binary \<Rightarrow> sieve_size_t \<Rightarrow> (sieve_size_t \<times> sieve_binary) access" where
  "sieve_binary_emit_integer binary integer =
     (case emit_integer_fill integer of
        Out_of_bounds \<Rightarrow> Out_of_bounds
      | Done (bufpos, buf) \<Rightarrow>
          (if 0 \<le> bufpos then sieve_binary_emit_data binary (drop (nat bufpos) buf)
           else Out_of_bounds))"

text \<open>
  \<^verbatim>\<open>
  bool sieve_binary_read_integer
    (struct sieve_binary *binary, sieve_size_t *address, sieve_size_t *integer)
  {
    int bits = sizeof(sieve_size_t) * 8;
    *integer = 0;

    if ( ADDR_BYTES_LEFT(binary, address) == 0 )
      return FALSE;

    while ( (ADDR_DATA_AT(binary, address) & 0x80) > 0 ) {
      if ( ADDR_BYTES_LEFT(binary, address) > 0 && bits > 0) {
        *integer |= ADDR_DATA_AT(binary, address) & 0x7F;
        ADDR_JUMP(address, 1);

        *integer <<= 7;
        bits -= 7;
      } else {
        /* This is an error */
        return FALSE;
      }
    }

    *integer |= ADDR_DATA_AT(binary, address) & 0x7F;
    ADDR_JUMP(address, 1);

    return TRUE;
  }
  \<close>
  The result \<open>Done (ok, address, integer)\<close> gives the value returned and the two variables
  the function writes through its pointers. The loop condition reads the byte at the
  address before anything compares the address with the size of the code.
\<close>

function read_integer_loop ::
  "8 word list \<Rightarrow> sieve_size_t \<Rightarrow> sieve_size_t \<Rightarrow> int \<Rightarrow>
   (bool \<times> sieve_size_t \<times> sieve_size_t) access" where
  "read_integer_loop cbytes address integer bits =
     (case ADDR_DATA_AT cbytes address of
        None \<Rightarrow> Out_of_bounds
      | Some b \<Rightarrow>
          if (b AND 0x80) > 0 then
            (if ADDR_BYTES_LEFT cbytes address > 0 \<and> bits > 0
             then read_integer_loop cbytes (address + 1)
                    (push_bit 7 (integer OR ucast (b AND 0x7F))) (bits - 7)
             else Done (False, address, integer))
          else Done (True, address + 1, integer OR ucast (b AND 0x7F)))"
  by pat_completeness auto
termination
  by (relation "measure (\<lambda>(cbytes, address, integer, bits). nat bits)") auto

declare read_integer_loop.simps [simp del]

definition sieve_binary_read_integer ::
  "8 word list \<Rightarrow> sieve_size_t \<Rightarrow> (bool \<times> sieve_size_t \<times> sieve_size_t) access" where
  "sieve_binary_read_integer cbytes address =
     (if ADDR_BYTES_LEFT cbytes address = 0 then Done (False, address, 0)
      else read_integer_loop cbytes address 0 (int (sizeof_sieve_size_t * 8)))"

text \<open>
  The words of the specification for the integer codec: "big-endian 7-bit groups with
  continuation bit in the high bit of every non-terminal byte; terminator has the high bit
  clear". \<open>varint_value\<close> is the number that a sequence of such bytes stands for.
\<close>

definition varint_value :: "8 word list \<Rightarrow> nat" where
  "varint_value bs = foldl (\<lambda>acc b. acc * 128 + unat (b AND 0x7F)) 0 bs"

section \<open>Binary: loading a file image\<close>

text \<open>
  \<^verbatim>\<open>
  #define SIEVE_BINARY_MAGIC              0xdeadbeaf
  #define SIEVE_BINARY_MAGIC_OTHER_ENDIAN 0xefbeadde

  #define SIEVE_BINARY_VERSION_MAJOR 0
  #define SIEVE_BINARY_VERSION_MINOR 0

  #define SIEVE_BINARY_ALIGN(offset) \
      (((offset) + 3) & ~3)
  \<close>
\<close>

definition SIEVE_BINARY_MAGIC :: "32 word" where
  "SIEVE_BINARY_MAGIC = 0xdeadbeaf"

definition SIEVE_BINARY_MAGIC_OTHER_ENDIAN :: "32 word" where
  "SIEVE_BINARY_MAGIC_OTHER_ENDIAN = 0xefbeadde"

definition SIEVE_BINARY_VERSION_MAJOR :: "16 word" where
  "SIEVE_BINARY_VERSION_MAJOR = 0"

definition SIEVE_BINARY_VERSION_MINOR :: "16 word" where
  "SIEVE_BINARY_VERSION_MINOR = 0"

definition SIEVE_BINARY_ALIGN :: "nat \<Rightarrow> nat" where
  "SIEVE_BINARY_ALIGN off = ((off + 3) div 4) * 4"

text \<open>
  Modelled from the spec: the identifiers of the system blocks, \<^verbatim>\<open>SBIN_SYSBLOCK_EXTENSIONS\<close>
  and \<^verbatim>\<open>SBIN_SYSBLOCK_MAIN_PROGRAM\<close>, are declared in a header that is not among the sources.
  The spec says "Block 0 is reserved for the extension-link table; block 1 is the main
  program".
\<close>

definition SBIN_SYSBLOCK_EXTENSIONS :: nat where
  "SBIN_SYSBLOCK_EXTENSIONS = 0"

definition SBIN_SYSBLOCK_MAIN_PROGRAM :: nat where
  "SBIN_SYSBLOCK_MAIN_PROGRAM = 1"

text \<open>
  The headers are C structs that the loader reads in place, through a pointer into the
  file image, so their fields have the byte order of the host that runs the loader:
  \<^verbatim>\<open>
  struct sieve_binary_header {
      uint32_t magic;
      uint16_t version_major;
      uint16_t version_minor;
      uint32_t blocks;
  };

  struct sieve_binary_block_index {
      uint32_t id;
      uint32_t size;
      uint32_t offset;
      uint32_t ext_id;
  };

  struct sieve_binary_block_header {
      uint32_t id;
      uint32_t size;
  };
  \<close>
  \<open>uint32_at e m p\<close> is the \<^verbatim>\<open>uint32_t\<close> that a host of byte order \<open>e\<close> reads at position
  \<open>p\<close> of the image \<open>m\<close>, and \<open>uint32_bytes e w\<close> the four bytes that such a host writes
  for \<open>w\<close>.
\<close>

datatype endianness = Little_endian | Big_endian

fun uint32_at :: "endianness \<Rightarrow> 8 word list \<Rightarrow> nat \<Rightarrow> 32 word" where
  "uint32_at Little_endian m p =
     ucast (m ! p) + push_bit 8 (ucast (m ! (p + 1))) + push_bit 16 (ucast (m ! (p + 2)))
       + push_bit 24 (ucast (m ! (p + 3)))"
| "uint32_at Big_endian m p =
     push_bit 24 (ucast (m ! p)) + push_bit 16 (ucast (m ! (p + 1)))
       + push_bit 8 (ucast (m ! (p + 2))) + ucast (m ! (p + 3))"

fun uint16_at :: "endianness \<Rightarrow> 8 word list \<Rightarrow> nat \<Rightarrow> 16 word" where
  "uint16_at Little_endian m p = ucast (m ! p) + push_bit 8 (ucast (m ! (p + 1)))"
| "uint16_at Big_endian m p = push_bit 8 (ucast (m ! p)) + ucast (m ! (p + 1))"

fun uint32_bytes :: "endianness \<Rightarrow> 32 word \<Rightarrow> 8 word list" where
  "uint32_bytes Little_endian w =
     [ucast w, ucast (drop_bit 8 w), ucast (drop_bit 16 w), ucast (drop_bit 24 w)]"
| "uint32_bytes Big_endian w =
     [ucast (drop_bit 24 w), ucast (drop_bit 16 w), ucast (drop_bit 8 w), ucast w]"

fun other_endian :: "endianness \<Rightarrow> endianness" where
  "other_endian Little_endian = Big_endian"
| "other_endian Big_endian = Little_endian"

text \<open>
  \<^verbatim>\<open>
  static const void *load_aligned_data
      (struct sieve_binary *sbin, off_t *offset, size_t size)
  {
      *offset = SIEVE_BINARY_ALIGN(*offset);

      if ( (*offset) + size <= sbin->memory_size ) {
          const void *data = PTR_OFFSET(sbin->memory, *offset);
          *offset += size;

          return data;
      }

      return NULL;
  }

  #define LOAD_HEADER(sbin, offset, header) \
      (header *) load_aligned_data(sbin, offset, sizeof(header))
  \<close>
  The result is the position of the data in the image, or \<open>None\<close> for NULL, and the new
  offset. An offset never exceeds the size of the image by more than 3 and a size is below
  \<open>2\<^sup>3\<^sup>2\<close>, so the sums do not overflow and natural numbers stand for them.
  \<^verbatim>\<open>load_aligned_buffer\<close> is the same function but for its result, a constant buffer over
  the data.
\<close>

definition load_aligned_data :: "sieve_binary \<Rightarrow> nat \<Rightarrow> nat \<Rightarrow> nat option \<times> nat" where
  "load_aligned_data sbin off sz =
     (let off1 = SIEVE_BINARY_ALIGN off
      in if off1 + sz \<le> length (memory sbin) then (Some off1, off1 + sz) else (None, off1))"

definition load_aligned_buffer ::
  "sieve_binary \<Rightarrow> nat \<Rightarrow> nat \<Rightarrow> 8 word list option \<times> nat" where
  "load_aligned_buffer sbin off sz =
     (let off1 = SIEVE_BINARY_ALIGN off
      in if off1 + sz \<le> length (memory sbin)
         then (Some (take sz (drop off1 (memory sbin))), off1 + sz)
         else (None, off1))"

definition i_error :: "binary_error \<Rightarrow> sieve_binary \<Rightarrow> sieve_binary" where
  "i_error e sbin = sbin\<lparr>errors := errors sbin @ [e]\<rparr>"

text \<open>
  \<^verbatim>\<open>
  static struct sieve_binary_block *sieve_binary_block_create_id
      (struct sieve_binary *sbin, unsigned int id)
  {
      struct sieve_binary_block *block;

      block = p_new(sbin->pool, struct sieve_binary_block, 1);
      array_idx_set(&sbin->blocks, id, &block);
      return block;
  }

  static bool _load_block_index_record
      (struct sieve_binary *sbin, off_t *offset, unsigned int id)
  {
      const struct sieve_binary_block_index *record =
          LOAD_HEADER(sbin, offset, const struct sieve_binary_block_index);
      struct sieve_binary_block *block;

      if ( record == NULL ) {
          i_error("sieve: failed to read index record for block %d in binary %s",
              id, sbin->path);
          return FALSE;
      }

      if ( record->id != id ) {
          i_error("sieve: block index record %d of loaded binary %s "
              "has unexpected id %d", id, sbin->path, record->id);
          return FALSE;
      }

      block = sieve_binary_block_create_id(sbin, id);
      block->ext_index = record->ext_id;
      block->offset = record->offset;

      return TRUE;
  }
  \<close>
  \<^verbatim>\<open>array_idx_set\<close> grows the array with NULL pointers up to the index it sets. The names of
  the static functions start with an underscore in the source and with \<open>priv\<close> here.
\<close>

definition array_idx_set :: "'a option list \<Rightarrow> nat \<Rightarrow> 'a \<Rightarrow> 'a option list" where
  "array_idx_set xs i v =
     (if i < length xs then xs[i := Some v]
      else xs @ replicate (i - length xs) None @ [Some v])"

definition priv_load_block_index_record ::
  "endianness \<Rightarrow> sieve_binary \<Rightarrow> nat \<Rightarrow> nat \<Rightarrow> bool \<times> nat \<times> sieve_binary" where
  "priv_load_block_index_record e sbin off ident =
     (case load_aligned_data sbin off 16 of
        (None, off1) \<Rightarrow> (False, off1, i_error (Index_record_unreadable ident) sbin)
      | (Some p, off1) \<Rightarrow>
          if unat (uint32_at e (memory sbin) p) \<noteq> ident
          then (False, off1,
                i_error (Index_record_unexpected_id ident (uint32_at e (memory sbin) p)) sbin)
          else
            let block = \<lparr>buffer = None, buffer_origin = None,
                          ext_index = sint (uint32_at e (memory sbin) (p + 12)),
                          file_offset = unat (uint32_at e (memory sbin) (p + 8))\<rparr>
            in (True, off1, sbin\<lparr>blocks := array_idx_set (blocks sbin) ident block\<rparr>))"

text \<open>
  \<^verbatim>\<open>
  static struct sieve_binary_block *_load_block
      (struct sieve_binary *sbin, off_t *offset, unsigned int id)
  {
      const struct sieve_binary_block_header *header =
          LOAD_HEADER(sbin, offset, const struct sieve_binary_block_header);
      struct sieve_binary_block *block;

      if ( header == NULL ) {
          i_error("sieve: block %d of loaded binary %s is truncated", id, sbin->path);
          return NULL;
      }

      if ( header->id != id ) {
          i_error("sieve: block %d of loaded binary %s has unexpected id", id,
              sbin->path);
          return NULL;
      }

      block = sieve_binary_block_get(sbin, id);

      if ( block == NULL ) {
          i_error("sieve: !!BUG!!: block %d missing in index (impossible) "
              "of binary %s", id, sbin->path);
          return NULL;
      }

      block->buffer = load_aligned_buffer(sbin, offset, header->size);
      if ( block->buffer == NULL ) {
          i_error("sieve: block %d of loaded binary %s has invalid size %d",
              id, sbin->path, header->size);
          return NULL;
      }

      return block;
  }
  \<close>
  The result says whether the pointer returned is not NULL. The data of the buffer lie in
  the image from the aligned offset on.
\<close>

definition priv_load_block ::
  "endianness \<Rightarrow> sieve_binary \<Rightarrow> nat \<Rightarrow> nat \<Rightarrow> bool \<times> nat \<times> sieve_binary" where
  "priv_load_block e sbin off ident =
     (case load_aligned_data sbin off 8 of
        (None, off1) \<Rightarrow> (False, off1, i_error (Block_truncated ident) sbin)
      | (Some p, off1) \<Rightarrow>
          if unat (uint32_at e (memory sbin) p) \<noteq> ident
          then (False, off1, i_error (Block_unexpected_id ident) sbin)
          else
            (case sieve_binary_block_get sbin ident of
               None \<Rightarrow> (False, off1, i_error (Block_missing_in_index ident) sbin)
             | Some block \<Rightarrow>
                 let sz = uint32_at e (memory sbin) (p + 4)
                 in (case load_aligned_buffer sbin off1 (unat sz) of
                       (None, off2) \<Rightarrow>
                         (False, off2,
                          i_error (Block_invalid_size ident sz)
                            (sbin\<lparr>blocks := (blocks sbin)
                                    [ident := Some (block\<lparr>buffer := None, buffer_origin := None\<rparr>)]\<rparr>))
                     | (Some bs, off2) \<Rightarrow>
                         (True, off2,
                          sbin\<lparr>blocks := (blocks sbin)
                                  [ident := Some (block\<lparr>buffer := Some bs,
                                                        buffer_origin := Some (SIEVE_BINARY_ALIGN off1)\<rparr>)]\<rparr>))))"

text \<open>
  \<^verbatim>\<open>
  bool sieve_binary_read_string
    (struct sieve_binary *binary, sieve_size_t *address, string_t **str)
  {
      sieve_size_t strlen = 0;

      if ( !sieve_binary_read_integer(binary, address, &strlen) )
          return FALSE;

      if ( strlen > ADDR_BYTES_LEFT(binary, address) )
          return FALSE;

      *str = t_str_const(&ADDR_CODE_AT(binary, address), strlen);
      ADDR_JUMP(address, strlen);

      if ( ADDR_CODE_AT(binary, address) != 0 )
          return FALSE;

      ADDR_JUMP(address, 1);

      return TRUE;
  }
  \<close>
  The result \<open>Done (ok, address, str)\<close> gives the value returned, the address and the string
  when one was made. When the string ends where the code ends, the last test reads
  \<^verbatim>\<open>code[code_size]\<close>, the byte behind the code. \<open>code_beyond\<close> gives the bytes that lie behind
  the code in the memory that holds it: for the block of a loaded binary what follows in
  the file image, which the test then reads; the byte behind the image, or behind a buffer
  with its own memory, is outside the object.
\<close>

definition code_beyond :: "sieve_binary \<Rightarrow> 8 word list" where
  "code_beyond sbin =
     (case sieve_binary_block_get sbin (active_block sbin) of
        None \<Rightarrow> []
      | Some block \<Rightarrow>
          (case buffer_origin block of
             None \<Rightarrow> []
           | Some origin \<Rightarrow> drop (origin + length (code sbin)) (memory sbin)))"

definition sieve_binary_read_string ::
  "8 word list \<Rightarrow> 8 word list \<Rightarrow> sieve_size_t \<Rightarrow>
   (bool \<times> sieve_size_t \<times> 8 word list option) access" where
  "sieve_binary_read_string cbytes beyond address =
     (case sieve_binary_read_integer cbytes address of
        Out_of_bounds \<Rightarrow> Out_of_bounds
      | Done (False, address1, strlen) \<Rightarrow> Done (False, address1, None)
      | Done (True, address1, strlen) \<Rightarrow>
          if strlen > ADDR_BYTES_LEFT cbytes address1 then Done (False, address1, None)
          else if \<not> unat address1 + unat strlen \<le> length cbytes then Out_of_bounds
          else
            let str = take (unat strlen) (drop (unat address1) cbytes);
                address2 = address1 + strlen
            in (case ADDR_DATA_AT (cbytes @ beyond) address2 of
                  None \<Rightarrow> Out_of_bounds
                | Some b \<Rightarrow>
                    if b \<noteq> 0 then Done (False, address2, Some str)
                    else Done (True, address2 + 1, Some str)))"

text \<open>
  The registry of extensions belongs to the process, not to the binary:
  \<^verbatim>\<open>sieve_extension_get_by_name\<close> gives the identifier of the extension with a name, negative
  when there is none, and \<^verbatim>\<open>sieve_extension_get_by_id\<close> the extension with an identifier or
  NULL. Both are parameters of the model.
  \<^verbatim>\<open>
  int sieve_binary_extension_link
      (struct sieve_binary *sbin, int ext_id)
  {
      const struct sieve_extension *ext = sieve_extension_get_by_id(ext_id);

      if ( ext != NULL && sieve_binary_extension_get_index(sbin, ext_id) == -1 ) {
          struct sieve_binary_extension_reg *ereg =
              sieve_binary_extension_create_reg(sbin, ext, ext_id);

          array_append(&sbin->linked_extensions, &ereg, 1);

          return ereg->index;
      }

      return -1;
  }
  \<close>
  The registrations of a binary are the list \<open>extensions\<close> of the identifiers registered, in
  the order of their indexes.
\<close>

record sieve_extension_registry =
  sieve_extension_get_by_name :: "8 word list \<Rightarrow> int"
  sieve_extension_get_by_id :: "int \<Rightarrow> bool"

definition sieve_binary_extension_link ::
  "sieve_extension_registry \<Rightarrow> sieve_binary \<Rightarrow> int \<Rightarrow> int \<times> sieve_binary" where
  "sieve_binary_extension_link reg sbin ext_id =
     (if sieve_extension_get_by_id reg ext_id \<and> ext_id \<notin> set (extensions sbin)
      then (int (length (extensions sbin)),
            sbin\<lparr>extensions := extensions sbin @ [ext_id],
                 linked_extensions := linked_extensions sbin @ [ext_id]\<rparr>)
      else (- 1, sbin))"

text \<open>
  \<^verbatim>\<open>
  static bool _sieve_binary_load_extensions(struct sieve_binary *sbin)
  {
      sieve_size_t offset = 0;
      sieve_size_t count = 0;
      bool result = TRUE;
      unsigned int i;

      sieve_binary_block_set_active(sbin, SBIN_SYSBLOCK_EXTENSIONS);

      if ( !sieve_binary_read_integer(sbin, &offset, &count) )
          return FALSE;

      for ( i = 0; result && i < count; i++ ) {
          T_FRAME(
              string_t *extension;
              int ext_id;

              if ( sieve_binary_read_string(sbin, &offset, &extension) ) {
                  ext_id = sieve_extension_get_by_name(str_c(extension), NULL);

                  if ( ext_id < 0 ) {
                      i_error("sieve: loaded binary %s requires unknown extension '%s'",
                          sbin->path, str_c(extension));
                      result = FALSE;
                  } else
                      (void) sieve_binary_extension_link(sbin, ext_id);
              }	else
                  result = FALSE;
          );
      }

      return result;
  }
  \<close>
  \<open>load_extensions_loop n\<close> runs the \<open>n\<close> iterations that remain. The counter \<^verbatim>\<open>i\<close> has 32
  bits; a block has fewer than \<open>2\<^sup>3\<^sup>2\<close> bytes and every string that is read takes at least
  two of them, so the loop ends before the counter wraps around.
\<close>

fun load_extensions_loop ::
  "sieve_extension_registry \<Rightarrow> nat \<Rightarrow> sieve_size_t \<Rightarrow> sieve_binary \<Rightarrow>
   (bool \<times> sieve_binary) access" where
  "load_extensions_loop reg 0 address sbin = Done (True, sbin)"
| "load_extensions_loop reg (Suc n) address sbin =
     (case sieve_binary_read_string (code sbin) (code_beyond sbin) address of
        Out_of_bounds \<Rightarrow> Out_of_bounds
      | Done (False, address1, str) \<Rightarrow> Done (False, sbin)
      | Done (True, address1, None) \<Rightarrow> Done (False, sbin)
      | Done (True, address1, Some name) \<Rightarrow>
          let ext_id = sieve_extension_get_by_name reg name
          in if ext_id < 0 then Done (False, i_error (Unknown_extension (map (\<lambda>b. char_of (unat b)) name)) sbin)
             else load_extensions_loop reg n address1
                    (snd (sieve_binary_extension_link reg sbin ext_id)))"

definition priv_sieve_binary_load_extensions ::
  "sieve_extension_registry \<Rightarrow> sieve_binary \<Rightarrow> (bool \<times> sieve_binary) access" where
  "priv_sieve_binary_load_extensions reg sbin =
     (let sbin1 = snd (sieve_binary_block_set_active sbin SBIN_SYSBLOCK_EXTENSIONS)
      in (case sieve_binary_read_integer (code sbin1) 0 of
            Out_of_bounds \<Rightarrow> Out_of_bounds
          | Done (False, address, count) \<Rightarrow> Done (False, sbin1)
          | Done (True, address, count) \<Rightarrow> load_extensions_loop reg (unat count) address sbin1))"

text \<open>
  \<^verbatim>\<open>
  static bool _sieve_binary_load(struct sieve_binary *sbin)
  {
      off_t offset = 0;
      const struct sieve_binary_header *header;
      struct sieve_binary_block *extensions;
      unsigned int i;

      /* Verify header */

      header = LOAD_HEADER(sbin, &offset, const struct sieve_binary_header);
      if ( header == NULL ) {
          i_error("sieve: loaded binary %s is not even large enough "
              "to contain a header.", sbin->path);
          return FALSE;
      }

      if ( header->magic != SIEVE_BINARY_MAGIC ) {
          if ( header->magic != SIEVE_BINARY_MAGIC_OTHER_ENDIAN )
              i_error("sieve: loaded binary %s has corrupted header %08x",
                  sbin->path, header->magic);

          return FALSE;
      }

      if ( header->version_major != SIEVE_BINARY_VERSION_MAJOR ||
          header->version_minor != SIEVE_BINARY_VERSION_MINOR ) {
          /* Binary is of different version. Caller will have to recompile */
          return FALSE;
      }

      if ( header->blocks == 0 ) {
          i_error("sieve: loaded binary %s contains no blocks", sbin->path);
          return FALSE;
      }

      /* Load block index */

      for ( i = 0; i < header->blocks; i++ ) {
          if ( !_load_block_index_record(sbin, &offset, i) ) {
              i_error("sieve: block index record %d of loaded binary %s is corrupt",
                  i, sbin->path);
              return FALSE;
          }
      }

      /* Load extensions used by this binary */

      extensions =_load_block(sbin, &offset, 0);
      if ( extensions == NULL )
          return FALSE;

      if ( !_sieve_binary_load_extensions(sbin) ) {
          i_error("sieve: extension block of loaded binary %s is corrupt",
              sbin->path);
          return FALSE;
      }

      /* Load the other blocks */

      for ( i = 1; i < header->blocks; i++ ) {
          if ( _load_block(sbin, &offset, i) == NULL ) {
              i_error("sieve: block %d of loaded binary %s is corrupt",
                  i, sbin->path);
              return FALSE;
          }
      }

      return TRUE;
  }
  \<close>
  The two loops run over the block identifiers from \<open>i\<close> up to \<open>n\<close>.
\<close>

function load_block_index_loop ::
  "endianness \<Rightarrow> nat \<Rightarrow> nat \<Rightarrow> nat \<Rightarrow> sieve_binary \<Rightarrow> bool \<times> nat \<times> sieve_binary" where
  "load_block_index_loop e i n off sbin =
     (if i < n then
        (case priv_load_block_index_record e sbin off i of
           (False, off1, sbin1) \<Rightarrow> (False, off1, i_error (Index_record_corrupt i) sbin1)
         | (True, off1, sbin1) \<Rightarrow> load_block_index_loop e (Suc i) n off1 sbin1)
      else (True, off, sbin))"
  by pat_completeness auto
termination
  by (relation "measure (\<lambda>(e, i, n, off, sbin). n - i)") auto

declare load_block_index_loop.simps [simp del]

function load_blocks_loop ::
  "endianness \<Rightarrow> nat \<Rightarrow> nat \<Rightarrow> nat \<Rightarrow> sieve_binary \<Rightarrow> bool \<times> nat \<times> sieve_binary" where
  "load_blocks_loop e i n off sbin =
     (if i < n then
        (case priv_load_block e sbin off i of
           (False, off1, sbin1) \<Rightarrow> (False, off1, i_error (Block_corrupt i) sbin1)
         | (True, off1, sbin1) \<Rightarrow> load_blocks_loop e (Suc i) n off1 sbin1)
      else (True, off, sbin))"
  by pat_completeness auto
termination
  by (relation "measure (\<lambda>(e, i, n, off, sbin). n - i)") auto

declare load_blocks_loop.simps [simp del]

definition priv_sieve_binary_load ::
  "endianness \<Rightarrow> sieve_extension_registry \<Rightarrow> sieve_binary \<Rightarrow> (bool \<times> sieve_binary) access" where
  "priv_sieve_binary_load e reg sbin =
     (case load_aligned_data sbin 0 12 of
        (None, off) \<Rightarrow> Done (False, i_error Header_too_small sbin)
      | (Some p, off) \<Rightarrow>
          let magic = uint32_at e (memory sbin) p;
              version_major = uint16_at e (memory sbin) (p + 4);
              version_minor = uint16_at e (memory sbin) (p + 6);
              nblocks = uint32_at e (memory sbin) (p + 8)
          in if magic \<noteq> SIEVE_BINARY_MAGIC then
               (if magic \<noteq> SIEVE_BINARY_MAGIC_OTHER_ENDIAN
                then Done (False, i_error (Corrupted_header magic) sbin)
                else Done (False, sbin))
             else if version_major \<noteq> SIEVE_BINARY_VERSION_MAJOR \<or>
                     version_minor \<noteq> SIEVE_BINARY_VERSION_MINOR
               then Done (False, sbin)
             else if nblocks = 0 then Done (False, i_error No_blocks sbin)
             else
               (case load_block_index_loop e 0 (unat nblocks) off sbin of
                  (False, off1, sbin1) \<Rightarrow> Done (False, sbin1)
                | (True, off1, sbin1) \<Rightarrow>
                    (case priv_load_block e sbin1 off1 0 of
                       (False, off2, sbin2) \<Rightarrow> Done (False, sbin2)
                     | (True, off2, sbin2) \<Rightarrow>
                         (case priv_sieve_binary_load_extensions reg sbin2 of
                            Out_of_bounds \<Rightarrow> Out_of_bounds
                          | Done (False, sbin3) \<Rightarrow>
                              Done (False, i_error Extension_block_corrupt sbin3)
                          | Done (True, sbin3) \<Rightarrow>
                              (case load_blocks_loop e 1 (unat nblocks) off2 sbin3 of
                                 (False, off3, sbin4) \<Rightarrow> Done (False, sbin4)
                               | (True, off3, sbin4) \<Rightarrow> Done (True, sbin4))))))"

section \<open>Interpreter: loops and jumps\<close>

text \<open>
  The exit codes of \<^verbatim>\<open>enum sieve_execution_exitcode\<close>. The enum is declared in a header that
  is not among the sources; \<^verbatim>\<open>sieve.c\<close> tests \<^verbatim>\<open>ret > 0\<close> for success and treats
  \<^verbatim>\<open>ret == 0\<close> as \<^verbatim>\<open>SIEVE_EXEC_FAILURE\<close>, and the remaining codes are negative.
\<close>

datatype sieve_execution_exitcode =
  SIEVE_EXEC_OK
| SIEVE_EXEC_FAILURE
| SIEVE_EXEC_TEMP_FAILURE
| SIEVE_EXEC_BIN_CORRUPT
| SIEVE_EXEC_KEEP_FAILED

fun exitcode_value :: "sieve_execution_exitcode \<Rightarrow> int" where
  "exitcode_value SIEVE_EXEC_OK = 1"
| "exitcode_value SIEVE_EXEC_FAILURE = 0"
| "exitcode_value SIEVE_EXEC_TEMP_FAILURE = - 1"
| "exitcode_value SIEVE_EXEC_BIN_CORRUPT = - 2"
| "exitcode_value SIEVE_EXEC_KEEP_FAILED = - 3"

text \<open>
  \<^verbatim>\<open>
  struct sieve_interpreter_loop {
      unsigned int level;
      sieve_size_t begin, end;
      const struct sieve_extension_def *ext_def;
      pool_t pool;
      void *context;
  };
  \<close>
  Pointers to extension definitions, pools and contexts are identifiers. The fields
  \<^verbatim>\<open>begin\<close> and \<^verbatim>\<open>end\<close> are \<open>loop_begin\<close> and \<open>loop_end\<close> here.
\<close>

record sieve_interpreter_loop =
  level :: nat
  loop_begin :: sieve_size_t
  loop_end :: sieve_size_t
  ext_def :: "nat option"
  pool :: nat
  loop_context :: "nat option"

text \<open>
  Of \<^verbatim>\<open>struct sieve_interpreter\<close> the model keeps the execution status and the loop stack:
  \<open>pc\<close> is \<^verbatim>\<open>runenv.pc\<close>, \<open>sblock\<close> the bytes of \<^verbatim>\<open>runenv.sblock\<close> (so that
  \<^verbatim>\<open>sieve_binary_block_get_size\<close> is their number), and \<open>loop_stack\<close> is \<open>None\<close> until the
  array is created. Memory pools are reference counted: \<open>pool_refs\<close> gives the count of
  each pool, \<open>next_pool\<close> the identifier of the next pool created; a pool whose count
  reaches 0 is freed. Tracing only writes to the trace stream and is left out.
\<close>

record sieve_interpreter =
  pc :: sieve_size_t
  sblock :: "8 word list"
  interrupted :: bool
  test_result :: bool
  loop_stack :: "sieve_interpreter_loop list option"
  loop_limit :: sieve_size_t
  parent_loop_level :: nat
  pool_refs :: "nat \<Rightarrow> nat"
  next_pool :: nat

definition sieve_binary_block_get_size :: "8 word list \<Rightarrow> sieve_size_t" where
  "sieve_binary_block_get_size blk = of_nat (length blk)"

definition pool_unref :: "nat \<Rightarrow> (nat \<Rightarrow> nat) \<Rightarrow> (nat \<Rightarrow> nat)" where
  "pool_unref p refs = refs(p := refs p - 1)"

text \<open>
  Modelled from the spec: the constant \<^verbatim>\<open>SIEVE_MAX_LOOP_DEPTH\<close> is defined in a header that is
  not among the sources. The spec says "Nesting is capped at a compile-time constant
  (\<open>\<ge>\<close> 4 levels)".
\<close>

definition SIEVE_MAX_LOOP_DEPTH :: nat where
  "SIEVE_MAX_LOOP_DEPTH = 4"

text \<open>
  \<^verbatim>\<open>
  int sieve_interpreter_loop_start
  (struct sieve_interpreter *interp, sieve_size_t loop_end,
      const struct sieve_extension_def *ext_def,
      struct sieve_interpreter_loop **loop_r)
  {
      const struct sieve_runtime_env *renv = &interp->runenv;
      struct sieve_interpreter_loop *loop;

      i_assert( loop_end > interp->runenv.pc );

      /* Check supplied end offset */
      if ( loop_end > sieve_binary_block_get_size(renv->sblock) ) {
          sieve_runtime_trace_error(renv, "loop end offset out of range");
          return SIEVE_EXEC_BIN_CORRUPT;
      }

      /* Check loop nesting limit */
      if ( !array_is_created(&interp->loop_stack) )
          p_array_init(&interp->loop_stack, interp->pool, 8);
      if ( (interp->parent_loop_level + array_count(&interp->loop_stack))
          >= SIEVE_MAX_LOOP_DEPTH ) {
          /* Should normally be caught at compile time */
          sieve_runtime_error(renv, NULL, "new program loop exceeds "
              "the nesting limit (<= %u levels)", SIEVE_MAX_LOOP_DEPTH);
          return SIEVE_EXEC_FAILURE;
      }

      /* Create new loop */
      loop = array_append_space(&interp->loop_stack);
      loop->level = array_count(&interp->loop_stack)-1;
      loop->ext_def = ext_def;
      loop->begin = interp->runenv.pc;
      loop->end = loop_end;
      loop->pool =  pool_alloconly_create("sieve_interpreter", 128);

      /* Set new loop limit */
      interp->loop_limit = loop_end;

      *loop_r = loop;
      return SIEVE_EXEC_OK;
  }
  \<close>
  A failed \<^verbatim>\<open>i_assert\<close> aborts the process: the result \<open>None\<close>. The pointer returned in
  \<^verbatim>\<open>*loop_r\<close> is the index of the new frame in the stack.
\<close>

definition sieve_interpreter_loop_start ::
  "sieve_interpreter \<Rightarrow> sieve_size_t \<Rightarrow> nat option \<Rightarrow>
   (sieve_execution_exitcode \<times> sieve_interpreter \<times> nat option) option" where
  "sieve_interpreter_loop_start interp loop_end_arg ext_def_arg =
     (if \<not> loop_end_arg > pc interp then None
      else if loop_end_arg > sieve_binary_block_get_size (sblock interp)
        then Some (SIEVE_EXEC_BIN_CORRUPT, interp, None)
      else
        let loops = (case loop_stack interp of None \<Rightarrow> [] | Some ls \<Rightarrow> ls);
            interp1 = interp\<lparr>loop_stack := Some loops\<rparr>
        in if parent_loop_level interp1 + length loops \<ge> SIEVE_MAX_LOOP_DEPTH
             then Some (SIEVE_EXEC_FAILURE, interp1, None)
           else
             let loop = \<lparr>level = length loops, loop_begin = pc interp1,
                         loop_end = loop_end_arg, ext_def = ext_def_arg,
                         pool = next_pool interp1, loop_context = None\<rparr>
             in Some (SIEVE_EXEC_OK,
                      interp1\<lparr>loop_stack := Some (loops @ [loop]),
                               pool_refs := (pool_refs interp1)(next_pool interp1 := 1),
                               next_pool := Suc (next_pool interp1),
                               loop_limit := loop_end_arg\<rparr>,
                      Some (length loops)))"

text \<open>
  \<^verbatim>\<open>
  int sieve_interpreter_loop_break(struct sieve_interpreter *interp,
      struct sieve_interpreter_loop *loop)
  {
      const struct sieve_runtime_env *renv = &interp->runenv;
      struct sieve_interpreter_loop *loops;
      sieve_size_t loop_end = loop->end;
      unsigned int count, i;

      /* Find the loop */
      i_assert( array_is_created(&interp->loop_stack) );
      loops = array_get_modifiable(&interp->loop_stack, &count);
      i_assert( count > 0 );

      i = count;
      do {
          pool_unref(&loops[i-1].pool);
          i--;
      } while ( i > 0 && &loops[i] != loop );
      i_assert( &loops[i] == loop );

      /* Set new loop limit */
      if ( i > 0 )
          interp->loop_limit = loops[i].end;
      else
          interp->loop_limit = 0;

      /* Delete it and all deeper loops */
      array_delete(&interp->loop_stack, i, count - i);

      /* Exit loop */
      interp->runenv.pc = loop->end;
      return SIEVE_EXEC_OK;
  }
  \<close>
  The pointer \<^verbatim>\<open>loop\<close> is the index \<open>l\<close> of a frame of the stack, so that
  \<^verbatim>\<open>&loops[i] != loop\<close> is \<open>i \<noteq> l\<close>. The do-while loop is \<open>loop_break_unref\<close>: it returns
  the final \<open>i\<close> and the reference counts. The last statement reads \<^verbatim>\<open>loop->end\<close> from the
  slot that \<^verbatim>\<open>array_delete\<close> has just cut off the array, where the frame's bytes still
  stand: the value saved in \<^verbatim>\<open>loop_end\<close> at entry.
\<close>

function loop_break_unref ::
  "sieve_interpreter_loop list \<Rightarrow> nat \<Rightarrow> nat \<Rightarrow> (nat \<Rightarrow> nat) \<Rightarrow> nat \<times> (nat \<Rightarrow> nat)" where
  "loop_break_unref loops l i refs =
     (let refs' = pool_unref (pool (loops ! (i - 1))) refs;
          i' = i - 1
      in if i' > 0 \<and> i' \<noteq> l then loop_break_unref loops l i' refs' else (i', refs'))"
  by pat_completeness auto
termination
  by (relation "measure (\<lambda>(loops, l, i, refs). i)") auto

declare loop_break_unref.simps [simp del]

definition sieve_interpreter_loop_break ::
  "sieve_interpreter \<Rightarrow> nat \<Rightarrow> (sieve_execution_exitcode \<times> sieve_interpreter) option" where
  "sieve_interpreter_loop_break interp l =
     (case loop_stack interp of
        None \<Rightarrow> None
      | Some loops \<Rightarrow>
          if \<not> l < length loops then None
          else
            let loop_end_saved = loop_end (loops ! l);
                count = length loops
            in if \<not> count > 0 then None
               else
                 (case loop_break_unref loops l count (pool_refs interp) of
                    (i, refs) \<Rightarrow>
                      if i \<noteq> l then None
                      else
                        let limit = (if i > 0 then loop_end (loops ! i) else 0)
                        in Some (SIEVE_EXEC_OK,
                                 interp\<lparr>pool_refs := refs,
                                        loop_limit := limit,
                                        loop_stack := Some (take i loops),
                                        pc := loop_end_saved\<rparr>)))"

text \<open>
  \<^verbatim>\<open>
  static int
  sieve_interpreter_loop_break_out(struct sieve_interpreter *interp,
      sieve_size_t target)
  {
      struct sieve_interpreter_loop *loops;
      unsigned int count, i;

      if ( !array_is_created(&interp->loop_stack) )
          return SIEVE_EXEC_OK;

      loops = array_get_modifiable(&interp->loop_stack, &count);
      for ( i = count; i > 0; i-- ) {
          /* We're really making sure our loop matches */
          if ( loops[i-1].end > target )
              break;
      }
      if ( i == count )
          return SIEVE_EXEC_OK;

      return sieve_interpreter_loop_break(interp, &loops[i]);
  }
  \<close>
\<close>

fun loop_break_out_find :: "sieve_interpreter_loop list \<Rightarrow> sieve_size_t \<Rightarrow> nat \<Rightarrow> nat" where
  "loop_break_out_find loops target 0 = 0"
| "loop_break_out_find loops target (Suc n) =
     (if loop_end (loops ! n) > target then Suc n else loop_break_out_find loops target n)"

definition sieve_interpreter_loop_break_out ::
  "sieve_interpreter \<Rightarrow> sieve_size_t \<Rightarrow> (sieve_execution_exitcode \<times> sieve_interpreter) option" where
  "sieve_interpreter_loop_break_out interp target =
     (case loop_stack interp of
        None \<Rightarrow> Some (SIEVE_EXEC_OK, interp)
      | Some loops \<Rightarrow>
          let count = length loops;
              i = loop_break_out_find loops target count
          in if i = count then Some (SIEVE_EXEC_OK, interp)
             else sieve_interpreter_loop_break interp i)"

text \<open>
  \<^verbatim>\<open>
  int sieve_interpreter_program_jump
  (struct sieve_interpreter *interp, bool jump, bool break_loops)
  {
      const struct sieve_runtime_env *renv = &interp->runenv;
      sieve_size_t *address = &(interp->runenv.pc);
      sieve_size_t jmp_start = *address, jmp_target;
      sieve_size_t loop_limit = ( break_loops ? 0 : interp->loop_limit );
      sieve_offset_t jmp_offset;
      int ret;

      if ( !sieve_binary_read_offset(renv->sblock, address, &jmp_offset) )
      {
          sieve_runtime_trace_error(renv, "invalid jump offset");
          return SIEVE_EXEC_BIN_CORRUPT;
      }

      jmp_target = jmp_start + jmp_offset;
      if ( jmp_target <= sieve_binary_block_get_size(renv->sblock) &&
          (loop_limit == 0 || jmp_target < loop_limit) &&
          jmp_start + jmp_offset > 0 )
      {
          if ( jump ) {
              if ( break_loops &&
                  (ret=sieve_interpreter_loop_break_out(interp, jmp_target)) <= 0 )
                  return ret;
              *address = jmp_target;
          } else {
              sieve_runtime_trace(renv, 0, "not jumping");
          }

          return SIEVE_EXEC_OK;
      }

      if ( interp->loop_limit != 0 ) {
          sieve_runtime_trace_error(renv, "jump offset crosses loop boundary");
      } else {
          sieve_runtime_trace_error(renv, "jump offset out of range");
      }
      return SIEVE_EXEC_BIN_CORRUPT;
  }
  \<close>
  The outcome is \<open>Out_of_bounds\<close> when the offset is read beyond the block, \<open>Done None\<close> when
  an assertion fails, and \<open>Done (Some (ret, interp'))\<close> when the function returns. The
  offset, a signed 32-bit integer, is converted to \<^verbatim>\<open>sieve_size_t\<close> for the addition, which
  wraps around.
\<close>

definition sieve_interpreter_program_jump ::
  "sieve_interpreter \<Rightarrow> bool \<Rightarrow> bool \<Rightarrow>
   (sieve_execution_exitcode \<times> sieve_interpreter) option access" where
  "sieve_interpreter_program_jump interp jump break_loops =
     (let jmp_start = pc interp;
          loop_limit_local = (if break_loops then 0 else loop_limit interp)
      in case sieve_binary_read_offset (sblock interp) (pc interp) of
           Out_of_bounds \<Rightarrow> Out_of_bounds
         | Done None \<Rightarrow> Done (Some (SIEVE_EXEC_BIN_CORRUPT, interp))
         | Done (Some (address, jmp_offset)) \<Rightarrow>
             let interp1 = interp\<lparr>pc := address\<rparr>;
                 jmp_target = jmp_start + scast jmp_offset
             in if jmp_target \<le> sieve_binary_block_get_size (sblock interp1) \<and>
                   (loop_limit_local = 0 \<or> jmp_target < loop_limit_local) \<and>
                   jmp_start + scast jmp_offset > 0
                then
                  (if jump then
                     (if break_loops then
                        (case sieve_interpreter_loop_break_out interp1 jmp_target of
                           None \<Rightarrow> Done None
                         | Some (ret, interp2) \<Rightarrow>
                             if exitcode_value ret \<le> 0 then Done (Some (ret, interp2))
                             else Done (Some (SIEVE_EXEC_OK, interp2\<lparr>pc := jmp_target\<rparr>)))
                      else Done (Some (SIEVE_EXEC_OK, interp1\<lparr>pc := jmp_target\<rparr>)))
                   else Done (Some (SIEVE_EXEC_OK, interp1)))
                else Done (Some (SIEVE_EXEC_BIN_CORRUPT, interp1)))"

text \<open>
  The words of the specification for jumps: the offset is "fixed 4 bytes, big-endian, two's
  complement", the target is the address of the offset's first byte plus the offset, and
  "a jump is valid iff \<open>0 < target \<le> block_size\<close> and, unless \<open>break_loops\<close> is set,
  \<open>target < loop_limit\<close>", where a loop limit of 0 stands for no active loop frame. The
  target is an integer, not a machine word.
\<close>

definition signed_offset_at :: "8 word list \<Rightarrow> nat \<Rightarrow> int" where
  "signed_offset_at cbytes a =
     (let u = ((uint (cbytes ! a) * 256 + uint (cbytes ! (a + 1))) * 256
                 + uint (cbytes ! (a + 2))) * 256 + uint (cbytes ! (a + 3))
      in if u < 2 ^ 31 then u else u - 2 ^ 32)"

definition jump_target :: "sieve_interpreter \<Rightarrow> int" where
  "jump_target interp =
     uint (pc interp) + signed_offset_at (sblock interp) (unat (pc interp))"

definition jump_valid :: "sieve_interpreter \<Rightarrow> bool \<Rightarrow> bool" where
  "jump_valid interp break_loops =
     (unat (pc interp) + 4 \<le> length (sblock interp) \<and>
      0 < jump_target interp \<and>
      jump_target interp \<le> int (length (sblock interp)) \<and>
      (break_loops \<or> loop_limit interp = 0 \<or> jump_target interp < uint (loop_limit interp)))"

section \<open>Properties of the store action's equality\<close>

lemma of_char_pos: "c \<noteq> CHR 0x00 \<Longrightarrow> 0 < (of_char c :: nat)"
proof -
  assume "c \<noteq> CHR 0x00"
  then have "(of_char c :: nat) \<noteq> of_char (CHR 0x00)"
    by (simp only: of_char_eq_iff not_False_eq_True)
  then show ?thesis by simp
qed

lemma c_tolower_nul: "c_tolower c = CHR 0x00 \<longleftrightarrow> c = CHR 0x00"
  by (auto simp: c_tolower_def char_of_eq_iff take_bit_eq_mod)

lemma strcmp_eq_0_iff:
  "is_cstring a \<Longrightarrow> is_cstring b \<Longrightarrow> strcmp a b = 0 \<longleftrightarrow> a = b"
  by (induction a b rule: strcmp.induct) (auto simp: is_cstring_def intro!: of_char_pos)

lemma strcasecmp_eq_0_iff:
  "is_cstring a \<Longrightarrow> is_cstring b \<Longrightarrow>
   strcasecmp a b = 0 \<longleftrightarrow> map c_tolower a = map c_tolower b"
proof (induction a b rule: strcasecmp.induct)
  case 1
  then show ?case by simp
next
  case (2 y ys)
  then have "c_tolower y \<noteq> CHR 0x00"
    by (auto simp: is_cstring_def c_tolower_nul)
  then show ?case using of_char_pos by fastforce
next
  case (3 x xs)
  then have "c_tolower x \<noteq> CHR 0x00"
    by (auto simp: is_cstring_def c_tolower_nul)
  then show ?case using of_char_pos by fastforce
next
  case (4 x xs y ys)
  then show ?case by (auto simp: is_cstring_def)
qed

lemma is_cstring_INBOX: "is_cstring ''INBOX''"
  by (simp add: is_cstring_def)

text \<open>
  Claim C7. For store actions whose mailbox names are C strings, \<open>act_store_equals\<close> is
  true exactly when the two target mailbox names are equal byte for byte, or both are
  equal to "INBOX" without regard to case; \<open>act_store_check_duplicate\<close> is 1 exactly then
  and 0 otherwise, so it is never negative.
\<close>

theorem act_store_equals_iff:
  assumes "is_cstring (store_target senv a1)" and "is_cstring (store_target senv a2)"
  shows "(act_store_equals senv a1 a2 \<longleftrightarrow>
            store_target senv a1 = store_target senv a2 \<or>
            equal_ignoring_case (store_target senv a1) ''INBOX'' \<and>
            equal_ignoring_case (store_target senv a2) ''INBOX'') \<and>
         (act_store_check_duplicate \<lparr>scriptenv = senv\<rparr> a1 a2 = 1 \<longleftrightarrow>
            store_target senv a1 = store_target senv a2 \<or>
            equal_ignoring_case (store_target senv a1) ''INBOX'' \<and>
            equal_ignoring_case (store_target senv a2) ''INBOX'') \<and>
         act_store_check_duplicate \<lparr>scriptenv = senv\<rparr> a1 a2 \<in> {0, 1}"
proof -
  have eq: "act_store_equals senv a1 a2 \<longleftrightarrow>
            store_target senv a1 = store_target senv a2 \<or>
            equal_ignoring_case (store_target senv a1) ''INBOX'' \<and>
            equal_ignoring_case (store_target senv a2) ''INBOX''"
    using assms
    by (auto simp: act_store_equals_def store_target_def equal_ignoring_case_def
          strcmp_eq_0_iff strcasecmp_eq_0_iff is_cstring_INBOX Let_def
          split: option.splits)
  show ?thesis
    using eq by (simp add: act_store_check_duplicate_def)
qed

theorem act_store_equals_iff_witness:
  "is_cstring (store_target
     \<lparr>default_mailbox = Some ''inbox'', username = ''u'', namespaces = None,
      mailbox_autocreate = False, mailbox_autosubscribe = False,
      duplicate_check = None :: (string \<Rightarrow> nat \<Rightarrow> string \<Rightarrow> unit \<Rightarrow> int \<times> unit) option,
      duplicate_mark = None\<rparr> None) \<and>
   is_cstring (store_target
     \<lparr>default_mailbox = Some ''inbox'', username = ''u'', namespaces = None,
      mailbox_autocreate = False, mailbox_autosubscribe = False,
      duplicate_check = None :: (string \<Rightarrow> nat \<Rightarrow> string \<Rightarrow> unit \<Rightarrow> int \<times> unit) option,
      duplicate_mark = None\<rparr>
     (Some \<lparr>act_context = Some \<lparr>mailbox = ''Inbox''\<rparr>\<rparr>)) \<and>
   act_store_equals
     \<lparr>default_mailbox = Some ''inbox'', username = ''u'', namespaces = None,
      mailbox_autocreate = False, mailbox_autosubscribe = False,
      duplicate_check = None :: (string \<Rightarrow> nat \<Rightarrow> string \<Rightarrow> unit \<Rightarrow> int \<times> unit) option,
      duplicate_mark = None\<rparr>
     None (Some \<lparr>act_context = Some \<lparr>mailbox = ''Inbox''\<rparr>\<rparr>) \<and>
   act_store_check_duplicate
     \<lparr>scriptenv =
        \<lparr>default_mailbox = Some ''inbox'', username = ''u'', namespaces = None,
         mailbox_autocreate = False, mailbox_autosubscribe = False,
         duplicate_check = None :: (string \<Rightarrow> nat \<Rightarrow> string \<Rightarrow> unit \<Rightarrow> int \<times> unit) option,
         duplicate_mark = None\<rparr>\<rparr>
     None (Some \<lparr>act_context = Some \<lparr>mailbox = ''Inbox''\<rparr>\<rparr>) = 1"
proof -
  let ?senv = "\<lparr>default_mailbox = Some ''inbox'', username = ''u'', namespaces = None,
      mailbox_autocreate = False, mailbox_autosubscribe = False,
      duplicate_check = None :: (string \<Rightarrow> nat \<Rightarrow> string \<Rightarrow> unit \<Rightarrow> int \<times> unit) option,
      duplicate_mark = None\<rparr>"
  let ?a2 = "Some \<lparr>act_context = Some \<lparr>mailbox = ''Inbox''\<rparr>\<rparr>"
  have t1: "store_target ?senv None = ''inbox''"
    by (simp add: store_target_def SIEVE_SCRIPT_DEFAULT_MAILBOX_def)
  have t2: "store_target ?senv ?a2 = ''Inbox''"
    by (simp add: store_target_def)
  have c1: "is_cstring (store_target ?senv None)"
    unfolding t1 by (simp add: is_cstring_def)
  have c2: "is_cstring (store_target ?senv ?a2)"
    unfolding t2 by (simp add: is_cstring_def)
  have e1: "equal_ignoring_case ''inbox'' ''INBOX''"
    by code_simp
  have e2: "equal_ignoring_case ''Inbox'' ''INBOX''"
    by code_simp
  show ?thesis
    using act_store_equals_iff [OF c1 c2] c1 c2 e1 e2 unfolding t1 t2 by simp
qed

section \<open>Jumps stay inside the block\<close>

subsection \<open>Machine arithmetic on addresses\<close>

lemma unat_of_nat64: "n < 2 ^ 64 \<Longrightarrow> unat (of_nat n :: 64 word) = n"
  by (simp add: unat_of_nat take_bit_eq_mod)

lemma unat_add_of_nat:
  assumes "unat (a :: 64 word) + n < 2 ^ 64"
  shows "unat (a + of_nat n) = unat a + n"
proof -
  have n: "unat (of_nat n :: 64 word) = n"
    using assms by (intro unat_of_nat64) arith
  have "unat a + unat (of_nat n :: 64 word) < 2 ^ LENGTH(64)"
    using assms n by simp
  then have "unat (a + of_nat n) = unat a + unat (of_nat n :: 64 word)"
    by (simp only: unat_add_lem)
  then show ?thesis using n by simp
qed

lemma unat_bytes_left:
  assumes "unat a \<le> length cbytes" and "length cbytes < 2 ^ 64"
  shows "unat (ADDR_BYTES_LEFT cbytes a) = length cbytes - unat a"
proof -
  have n: "unat (of_nat (length cbytes) :: 64 word) = length cbytes"
    using assms(2) by (rule unat_of_nat64)
  have "a \<le> of_nat (length cbytes)"
    using assms(1) n by (simp add: word_le_nat_alt)
  then have "unat (of_nat (length cbytes) - a) = unat (of_nat (length cbytes) :: 64 word) - unat a"
    by (rule unat_sub)
  then show ?thesis using n by (simp add: ADDR_BYTES_LEFT_def code_size_def)
qed

lemma bytes_left_ge_4:
  assumes "unat a \<le> length cbytes" and "length cbytes < 2 ^ 64"
  shows "4 \<le> ADDR_BYTES_LEFT cbytes a \<longleftrightarrow> unat a + 4 \<le> length cbytes"
proof -
  have "4 \<le> ADDR_BYTES_LEFT cbytes a \<longleftrightarrow> unat (4 :: 64 word) \<le> unat (ADDR_BYTES_LEFT cbytes a)"
    by (rule word_le_nat_alt)
  also have "\<dots> \<longleftrightarrow> 4 \<le> length cbytes - unat a"
    using unat_bytes_left [OF assms] by simp
  also have "\<dots> \<longleftrightarrow> unat a + 4 \<le> length cbytes"
    using assms(1) by arith
  finally show ?thesis .
qed

lemma ADDR_DATA_AT_in_range:
  assumes "unat a + k < length cbytes" and "length cbytes < 2 ^ 64"
  shows "ADDR_DATA_AT cbytes (a + of_nat k) = Some (cbytes ! (unat a + k))"
proof -
  have "unat (a + of_nat k) = unat a + k"
    using assms by (intro unat_add_of_nat) arith
  then show ?thesis using assms(1) by (simp add: ADDR_DATA_AT_def)
qed

lemma uint_ucast_8_32: "uint (ucast (b :: 8 word) :: 32 word) = uint b"
  by (simp add: uint_up_ucast is_up)

lemma uint_byte_bound: "uint (b :: 8 word) < 256"
  using uint_bounded [of b] by simp

lemma uint_shift_byte:
  fixes x :: "32 word" and b :: "8 word"
  assumes "uint x < 2 ^ 24"
  shows "uint (push_bit 8 x + ucast b) = uint x * 256 + uint b"
proof -
  have "uint (push_bit 8 x + ucast b) = (uint x * 256 + uint b) mod 2 ^ 32"
    by (simp add: push_bit_eq_mult uint_word_ariths uint_ucast_8_32 mod_simps)
  moreover have "0 \<le> uint x * 256 + uint b" by simp
  moreover have "uint x * 256 + uint b < 2 ^ 32"
    using assms uint_byte_bound [of b] by simp
  ultimately show ?thesis by simp
qed

lemma sint_32_of_uint:
  "sint (w :: 32 word) = (if uint w < 2 ^ 31 then uint w else uint w - 2 ^ 32)"
proof -
  have s: "sint w = take_bit 32 (uint w + 2 ^ 31) - 2 ^ 31"
    by (simp add: sint_uint signed_take_bit_eq_take_bit_shift)
  have b: "0 \<le> uint w" "uint w < 2 ^ 32"
    using uint_bounded [of w] by simp_all
  show ?thesis
  proof (cases "uint w < 2 ^ 31")
    case True
    then have "(uint w + 2 ^ 31) mod 2 ^ 32 = uint w + 2 ^ 31"
      using b by (intro mod_pos_pos_trivial) simp_all
    then show ?thesis using True s by (simp add: take_bit_eq_mod)
  next
    case False
    then have "(uint w + 2 ^ 31) mod 2 ^ 32 = uint w + 2 ^ 31 - 2 ^ 32"
      using b by (simp add: mod_pos_geq)
    then show ?thesis using False s by (simp add: take_bit_eq_mod)
  qed
qed

lemma uint_four_bytes:
  fixes b0 b1 b2 b3 :: "8 word"
  shows "uint (push_bit 8 (push_bit 8 (push_bit 8 (push_bit 8 (0 :: 32 word) + ucast b0)
            + ucast b1) + ucast b2) + ucast b3)
         = ((uint b0 * 256 + uint b1) * 256 + uint b2) * 256 + uint b3"
proof -
  let ?x0 = "push_bit 8 (0 :: 32 word) + ucast b0"
  let ?x1 = "push_bit 8 ?x0 + ucast b1"
  let ?x2 = "push_bit 8 ?x1 + ucast b2"
  have e0: "uint ?x0 = uint b0" by (simp add: uint_ucast_8_32)
  have e1: "uint ?x1 = uint b0 * 256 + uint b1"
    using uint_shift_byte [of ?x0 b1] uint_byte_bound [of b0] e0 by simp
  have e2: "uint ?x2 = (uint b0 * 256 + uint b1) * 256 + uint b2"
    using uint_shift_byte [of ?x1 b2] uint_byte_bound [of b0] uint_byte_bound [of b1] e1
    by simp
  have "uint ?x2 < 2 ^ 24"
    using e2 uint_byte_bound [of b0] uint_byte_bound [of b1] uint_byte_bound [of b2] by simp
  then show ?thesis using uint_shift_byte [of ?x2 b3] e2 by simp
qed

lemma read_offset_loop_step:
  "ADDR_DATA_AT cbytes a = Some b \<Longrightarrow>
   read_offset_loop (Suc n) cbytes a offs = read_offset_loop n cbytes (a + 1) (push_bit 8 offs + ucast b)"
  by simp

lemma read_offset_loop_4:
  assumes "unat a + 4 \<le> length cbytes" and "length cbytes < 2 ^ 64"
  shows "\<exists>offs. read_offset_loop 4 cbytes a 0 = Done (a + 4, offs) \<and>
           uint offs = ((uint (cbytes ! unat a) * 256 + uint (cbytes ! (unat a + 1))) * 256
                          + uint (cbytes ! (unat a + 2))) * 256 + uint (cbytes ! (unat a + 3))"
proof -
  let ?b0 = "cbytes ! unat a" and ?b1 = "cbytes ! (unat a + 1)"
  let ?b2 = "cbytes ! (unat a + 2)" and ?b3 = "cbytes ! (unat a + 3)"
  let ?x0 = "push_bit 8 (0 :: 32 word) + ucast ?b0"
  let ?x1 = "push_bit 8 ?x0 + ucast ?b1"
  let ?x2 = "push_bit 8 ?x1 + ucast ?b2"
  let ?x3 = "push_bit 8 ?x2 + ucast ?b3"
  have c1: "a + 1 = a + of_nat 1" and c2: "a + 1 + 1 = a + of_nat 2"
    and c3: "a + 1 + 1 + 1 = a + of_nat 3"
    by simp_all
  have d0: "ADDR_DATA_AT cbytes a = Some ?b0"
    using ADDR_DATA_AT_in_range [of a 0 cbytes] assms by simp
  have d1: "ADDR_DATA_AT cbytes (a + 1) = Some ?b1"
    unfolding c1 by (rule ADDR_DATA_AT_in_range) (use assms in simp_all)
  have d2: "ADDR_DATA_AT cbytes (a + 1 + 1) = Some ?b2"
    unfolding c2 by (rule ADDR_DATA_AT_in_range) (use assms in simp_all)
  have d3: "ADDR_DATA_AT cbytes (a + 1 + 1 + 1) = Some ?b3"
    unfolding c3 by (rule ADDR_DATA_AT_in_range) (use assms in simp_all)
  have n4: "(4 :: nat) = Suc (Suc (Suc (Suc 0)))" by simp
  have a4: "a + 1 + 1 + 1 + 1 = a + 4" by simp
  have "read_offset_loop (Suc (Suc (Suc (Suc 0)))) cbytes a 0
        = read_offset_loop (Suc (Suc (Suc 0))) cbytes (a + 1) ?x0"
    by (rule read_offset_loop_step [OF d0])
  also have "\<dots> = read_offset_loop (Suc (Suc 0)) cbytes (a + 1 + 1) ?x1"
    by (rule read_offset_loop_step [OF d1])
  also have "\<dots> = read_offset_loop (Suc 0) cbytes (a + 1 + 1 + 1) ?x2"
    by (rule read_offset_loop_step [OF d2])
  also have "\<dots> = read_offset_loop 0 cbytes (a + 1 + 1 + 1 + 1) ?x3"
    by (rule read_offset_loop_step [OF d3])
  also have "\<dots> = Done (a + 4, ?x3)"
    by (simp only: read_offset_loop.simps a4)
  finally have r: "read_offset_loop 4 cbytes a 0 = Done (a + 4, ?x3)"
    by (simp only: n4)
  have "uint ?x3 = ((uint ?b0 * 256 + uint ?b1) * 256 + uint ?b2) * 256 + uint ?b3"
    by (rule uint_four_bytes)
  with r show ?thesis by blast
qed

lemma read_offset_ok:
  assumes "unat a + 4 \<le> length cbytes" and "length cbytes < 2 ^ 63"
  shows "\<exists>offs. sieve_binary_read_offset cbytes a = Done (Some (a + 4, offs)) \<and>
           sint offs = signed_offset_at cbytes (unat a)"
proof -
  have l64: "length cbytes < 2 ^ 64" using assms(2) by simp
  have le: "unat a \<le> length cbytes" using assms(1) by simp
  have ge: "4 \<le> ADDR_BYTES_LEFT cbytes a"
    using bytes_left_ge_4 [OF le l64] assms(1) by simp
  obtain offs where r: "read_offset_loop 4 cbytes a 0 = Done (a + 4, offs)"
    and u: "uint offs = ((uint (cbytes ! unat a) * 256 + uint (cbytes ! (unat a + 1))) * 256
                          + uint (cbytes ! (unat a + 2))) * 256 + uint (cbytes ! (unat a + 3))"
    using read_offset_loop_4 [OF assms(1) l64] by blast
  have "sieve_binary_read_offset cbytes a = Done (Some (a + 4, offs))"
    using ge r by (simp add: sieve_binary_read_offset_def)
  moreover have "sint offs = signed_offset_at cbytes (unat a)"
    unfolding signed_offset_at_def Let_def sint_32_of_uint u ..
  ultimately show ?thesis by blast
qed

lemma read_offset_fail:
  assumes "unat a \<le> length cbytes" and "\<not> unat a + 4 \<le> length cbytes"
    and "length cbytes < 2 ^ 63"
  shows "sieve_binary_read_offset cbytes a = Done None"
proof -
  have l64: "length cbytes < 2 ^ 64" using assms(3) by simp
  have "\<not> 4 \<le> ADDR_BYTES_LEFT cbytes a"
    using bytes_left_ge_4 [OF assms(1) l64] assms(2) by simp
  then show ?thesis by (simp add: sieve_binary_read_offset_def)
qed

lemma word_target:
  fixes p :: "64 word" and offs :: "32 word"
  shows "uint (p + scast offs) = (uint p + sint offs) mod 2 ^ 64"
proof -
  have a: "scast offs = (word_of_int (sint offs) :: 64 word)" by (rule scast_eq)
  have b: "word_of_int (uint p) = p" by (rule word_of_int_uint)
  have "p + scast offs = word_of_int (uint p) + word_of_int (sint offs)"
    by (simp only: a b)
  also have "\<dots> = word_of_int (uint p + sint offs)"
    by (simp only: wi_hom_add)
  finally have "uint (p + scast offs) = uint (word_of_int (uint p + sint offs) :: 64 word)"
    by (rule arg_cong)
  then show ?thesis
    by (simp only: uint_word_of_int len_num1 Type_Length.len_num0 Type_Length.len_bit0) simp
qed

lemma sint32_bounds: "- (2 ^ 31) \<le> sint (offs :: 32 word) \<and> sint offs < 2 ^ 31"
  using sint_ge [of offs] sint_lt [of offs] by simp

lemma uint_of_nat64:
  assumes "n < 2 ^ 64"
  shows "uint (of_nat n :: 64 word) = int n"
proof -
  have "uint (of_nat n :: 64 word) = int (unat (of_nat n :: 64 word))" by (rule uint_nat)
  then show ?thesis by (simp only: unat_of_nat64 [OF assms])
qed

lemma jump_target_word:
  fixes p lim :: "64 word" and offs :: "32 word"
  assumes "unat p \<le> L" and "L < 2 ^ 63"
  defines "w \<equiv> p + scast offs" and "t \<equiv> uint p + sint offs"
  shows "(w \<le> of_nat L \<and> (lim = 0 \<or> w < lim) \<and> w > 0) \<longleftrightarrow>
         (0 < t \<and> t \<le> int L \<and> (lim = 0 \<or> t < uint lim))"
    and "0 < t \<Longrightarrow> t \<le> int L \<Longrightarrow> uint w = t"
proof -
  have uw: "uint w = t mod 2 ^ 64"
    unfolding w_def t_def by (rule word_target)
  have uL: "uint (of_nat L :: 64 word) = int L"
    using assms(2) by (intro uint_of_nat64) simp
  have "int (unat p) \<le> int L"
    using assms(1) by (simp only: of_nat_le_iff)
  then have p: "uint p \<le> int L"
    by (simp only: uint_nat)
  have p0: "0 \<le> uint p" by (rule uint_ge_0)
  have L: "int L < 2 ^ 63" using assms(2) by simp
  note sb = sint32_bounds [of offs]
  have tb: "- (2 ^ 31) \<le> t" "t < 2 ^ 63 + 2 ^ 31"
    unfolding t_def using p p0 L sb by linarith+
  show eq: "0 < t \<Longrightarrow> t \<le> int L \<Longrightarrow> uint w = t"
    using uw L by simp
  show "(w \<le> of_nat L \<and> (lim = 0 \<or> w < lim) \<and> w > 0) \<longleftrightarrow>
         (0 < t \<and> t \<le> int L \<and> (lim = 0 \<or> t < uint lim))"
  proof (cases "t < 0")
    case True
    then have "(t + 2 ^ 64) mod 2 ^ 64 = t + 2 ^ 64"
      using tb by (intro mod_pos_pos_trivial) simp_all
    moreover have "(t + 2 ^ 64) mod 2 ^ 64 = t mod 2 ^ 64"
      by (rule mod_add_self2)
    ultimately have "t mod 2 ^ 64 = t + 2 ^ 64" by (simp only:)
    then have "uint w > int L" using uw tb L by simp
    then have "\<not> w \<le> of_nat L" by (simp add: word_le_def uL)
    then show ?thesis using True by simp
  next
    case False
    then have "uint w = t" using uw tb by simp
    then show ?thesis
      by (auto simp: word_le_def word_less_def uL)
  qed
qed

lemma loop_break_unref_fst:
  "l < i \<Longrightarrow> fst (loop_break_unref loops l i refs) = l"
proof (induction loops l i refs rule: loop_break_unref.induct)
  case (1 loops l i refs)
  show ?case
  proof (cases "i - 1 > 0 \<and> i - 1 \<noteq> l")
    case True
    then have "l < i - 1" using "1.prems" by arith
    then have "fst (loop_break_unref loops l (i - 1) (pool_unref (pool (loops ! (i - 1))) refs)) = l"
      using "1.IH" True by simp
    then show ?thesis
      using True by (subst loop_break_unref.simps) (simp add: Let_def)
  next
    case False
    then have "i - 1 = l" using "1.prems" by arith
    then show ?thesis
      using False by (subst loop_break_unref.simps) (simp add: Let_def)
  qed
qed

lemma loop_break_returns:
  assumes "loop_stack interp = Some loops" and "l < length loops"
  shows "\<exists>refs. sieve_interpreter_loop_break interp l =
           Some (SIEVE_EXEC_OK,
                 interp\<lparr>pool_refs := refs,
                        loop_limit := (if l > 0 then loop_end (loops ! l) else 0),
                        loop_stack := Some (take l loops),
                        pc := loop_end (loops ! l)\<rparr>)"
proof -
  obtain i refs where r: "loop_break_unref loops l (length loops) (pool_refs interp) = (i, refs)"
    by (cases "loop_break_unref loops l (length loops) (pool_refs interp)")
  have "i = l"
    using loop_break_unref_fst [OF assms(2), of loops "pool_refs interp"] r by simp
  then show ?thesis
    using assms r by (auto simp: sieve_interpreter_loop_break_def Let_def)
qed

lemma loop_break_out_find_le: "loop_break_out_find loops target n \<le> n"
  by (induction n) auto

lemma loop_break_out_returns:
  "\<exists>interp'. sieve_interpreter_loop_break_out interp target = Some (SIEVE_EXEC_OK, interp') \<and>
             sblock interp' = sblock interp"
proof (cases "loop_stack interp")
  case None
  then show ?thesis by (simp add: sieve_interpreter_loop_break_out_def)
next
  case (Some loops)
  let ?i = "loop_break_out_find loops target (length loops)"
  show ?thesis
  proof (cases "?i = length loops")
    case True
    then show ?thesis using Some by (simp add: sieve_interpreter_loop_break_out_def)
  next
    case False
    then have "?i < length loops"
      using loop_break_out_find_le [of loops target "length loops"] by arith
    from loop_break_returns [OF Some this] obtain refs where
      "sieve_interpreter_loop_break interp ?i =
           Some (SIEVE_EXEC_OK,
                 interp\<lparr>pool_refs := refs,
                        loop_limit := (if ?i > 0 then loop_end (loops ! ?i) else 0),
                        loop_stack := Some (take ?i loops),
                        pc := loop_end (loops ! ?i)\<rparr>)" ..
    then show ?thesis
      using Some False by (simp add: sieve_interpreter_loop_break_out_def Let_def)
  qed
qed

text \<open>
  Claim C2. A jump is executed at an address inside a block of fewer than \<open>2\<^sup>6\<^sup>3\<close> bytes.
  \<open>sieve_interpreter_program_jump\<close> returns; it returns \<open>SIEVE_EXEC_OK\<close> exactly when the
  jump is valid in the words of the specification, that is when the four bytes of the offset
  are there and the integer \<open>target = jmp_start + offset\<close> satisfies
  \<open>0 < target \<le> block_size\<close> and, unless \<open>break_loops\<close> is set or the loop limit is 0,
  \<open>target < loop_limit\<close>; otherwise it returns \<open>SIEVE_EXEC_BIN_CORRUPT\<close>. A valid jump that
  is taken sets the program counter to the target; in every other case the program counter
  stays where it was or moves past the offset. The program counter never leaves
  \<open>[0, block_size]\<close>.
\<close>

theorem program_jump_valid_iff:
  assumes "unat (pc interp) \<le> length (sblock interp)"
    and "length (sblock interp) < 2 ^ 63"
  shows "\<exists>ret interp'.
           sieve_interpreter_program_jump interp jump break_loops = Done (Some (ret, interp')) \<and>
           ret = (if jump_valid interp break_loops then SIEVE_EXEC_OK else SIEVE_EXEC_BIN_CORRUPT) \<and>
           (if jump_valid interp break_loops \<and> jump
            then uint (pc interp') = jump_target interp
            else pc interp' = pc interp \<or> pc interp' = pc interp + 4) \<and>
           sblock interp' = sblock interp \<and>
           unat (pc interp') \<le> length (sblock interp')"
proof (cases "unat (pc interp) + 4 \<le> length (sblock interp)")
  case False
  have "sieve_binary_read_offset (sblock interp) (pc interp) = Done None"
    using assms(1) False assms(2) by (rule read_offset_fail)
  then have "sieve_interpreter_program_jump interp jump break_loops =
             Done (Some (SIEVE_EXEC_BIN_CORRUPT, interp))"
    by (simp add: sieve_interpreter_program_jump_def)
  moreover have "\<not> jump_valid interp break_loops"
    using False by (simp add: jump_valid_def)
  ultimately show ?thesis using assms(1) by simp
next
  case True
  let ?L = "length (sblock interp)"
  obtain offs where ro: "sieve_binary_read_offset (sblock interp) (pc interp)
                          = Done (Some (pc interp + 4, offs))"
    and so: "sint offs = signed_offset_at (sblock interp) (unat (pc interp))"
    using read_offset_ok [OF True assms(2)] by blast
  let ?w = "pc interp + scast offs"
  let ?t = "uint (pc interp) + sint offs"
  let ?lim = "if break_loops then 0 else loop_limit interp"
  have t: "jump_target interp = ?t" by (simp add: jump_target_def so)
  have chk: "(?w \<le> of_nat ?L \<and> (?lim = 0 \<or> ?w < ?lim) \<and> ?w > 0) \<longleftrightarrow>
             (0 < ?t \<and> ?t \<le> int ?L \<and> (?lim = 0 \<or> ?t < uint ?lim))"
    using assms by (rule jump_target_word(1))
  have jv: "jump_valid interp break_loops \<longleftrightarrow>
            (0 < ?t \<and> ?t \<le> int ?L \<and> (?lim = 0 \<or> ?t < uint ?lim))"
    using True by (auto simp: jump_valid_def t)
  have p4: "unat (pc interp + 4) = unat (pc interp) + 4"
    using unat_add_of_nat [of "pc interp" 4] True assms(2) by simp
  show ?thesis
  proof (cases "jump_valid interp break_loops")
    case False
    then have "\<not> (?w \<le> of_nat ?L \<and> (?lim = 0 \<or> ?w < ?lim) \<and> ?w > 0)"
      using chk jv by simp
    then have "sieve_interpreter_program_jump interp jump break_loops =
               Done (Some (SIEVE_EXEC_BIN_CORRUPT, interp\<lparr>pc := pc interp + 4\<rparr>))"
      using ro by (cases break_loops) (auto simp: sieve_interpreter_program_jump_def Let_def
                     sieve_binary_block_get_size_def)
    then show ?thesis using False p4 True by simp
  next
    case valid: True
    then have ok: "?w \<le> of_nat ?L \<and> (?lim = 0 \<or> ?w < ?lim) \<and> ?w > 0"
      using chk jv by simp
    have uw: "uint ?w = ?t"
      using jump_target_word(2) [OF assms, of offs] valid jv by simp
    have "int (unat ?w) = ?t" using uw by (simp only: uint_nat)
    then have wL: "unat ?w \<le> ?L" using valid jv by linarith
    show ?thesis
    proof (cases jump)
      case False
      then have "sieve_interpreter_program_jump interp jump break_loops =
                 Done (Some (SIEVE_EXEC_OK, interp\<lparr>pc := pc interp + 4\<rparr>))"
        using ro ok by (simp add: sieve_interpreter_program_jump_def Let_def
                       sieve_binary_block_get_size_def)
      then show ?thesis using False valid p4 True by simp
    next
      case j: True
      show ?thesis
      proof (cases break_loops)
        case False
        then have "sieve_interpreter_program_jump interp jump break_loops =
                   Done (Some (SIEVE_EXEC_OK, interp\<lparr>pc := ?w\<rparr>))"
          using ro ok j by (simp add: sieve_interpreter_program_jump_def Let_def
                         sieve_binary_block_get_size_def)
        then show ?thesis using valid j uw t wL by simp
      next
        case b: True
        obtain interp2 where
          bo: "sieve_interpreter_loop_break_out (interp\<lparr>pc := pc interp + 4\<rparr>) ?w
                 = Some (SIEVE_EXEC_OK, interp2)"
          and sb: "sblock interp2 = sblock (interp\<lparr>pc := pc interp + 4\<rparr>)"
          using loop_break_out_returns [of "interp\<lparr>pc := pc interp + 4\<rparr>" ?w] by blast
        have "sieve_interpreter_program_jump interp jump break_loops =
                   Done (Some (SIEVE_EXEC_OK, interp2\<lparr>pc := ?w\<rparr>))"
          using ro ok j b bo by (simp add: sieve_interpreter_program_jump_def Let_def
                         sieve_binary_block_get_size_def)
        then show ?thesis using valid j uw t wL sb by simp
      qed
    qed
  qed
qed

theorem program_jump_valid_iff_witness:
  "(let I = \<lparr>pc = 0, sblock = [0, 0, 0, 5, 1, 2, 3, 4, 9, 9], interrupted = False,
             test_result = False, loop_stack = None, loop_limit = 0,
             parent_loop_level = 0, pool_refs = (\<lambda>p. 0), next_pool = 0\<rparr>
    in unat (pc I) \<le> length (sblock I) \<and> length (sblock I) < 2 ^ 63 \<and>
       jump_valid I False \<and> jump_target I = 5 \<and>
       (\<exists>interp'. sieve_interpreter_program_jump I True False
                     = Done (Some (SIEVE_EXEC_OK, interp')) \<and>
                  uint (pc interp') = 5 \<and> unat (pc interp') \<le> length (sblock interp')))"
proof -
  let ?I = "\<lparr>pc = 0, sblock = [0, 0, 0, 5, 1, 2, 3, 4, 9, 9], interrupted = False,
             test_result = False, loop_stack = None, loop_limit = 0,
             parent_loop_level = 0, pool_refs = (\<lambda>p. 0), next_pool = 0\<rparr>"
  have h1: "unat (pc ?I) \<le> length (sblock ?I)" by simp
  have h2: "length (sblock ?I) < 2 ^ 63" by simp
  have t: "jump_target ?I = 5"
    by (simp add: jump_target_def signed_offset_at_def)
  have v: "jump_valid ?I False"
    by (simp add: jump_valid_def t)
  from program_jump_valid_iff [OF h1 h2, of True False] v t
  have "\<exists>interp'. sieve_interpreter_program_jump ?I True False
                     = Done (Some (SIEVE_EXEC_OK, interp')) \<and>
                  uint (pc interp') = 5 \<and> unat (pc interp') \<le> length (sblock interp')"
    by auto
  with h1 h2 v t show ?thesis by (simp only: Let_def)
qed

section \<open>Breaking out of a loop\<close>

text \<open>
  Claim C5, evaluated on the code. Two nested loops are started by
  \<open>sieve_interpreter_loop_start\<close>: the outer one at address 1 with end 9, the inner one at
  address 2 with end 6. After each start the loop limit is the end of the innermost frame.
  \<open>sieve_interpreter_loop_break\<close> on the inner frame removes it, releases its pool and sets
  the program counter to its end 6, but it leaves the loop limit at 6, the end of the frame
  it has just removed, while the innermost frame that remains ends at 9.
\<close>

theorem loop_break_limit_is_removed_frame:
  "(let I0 = \<lparr>pc = 1, sblock = [0, 1, 2, 3, 4, 5, 6, 7, 8, 9], interrupted = False,
              test_result = False, loop_stack = None, loop_limit = 0,
              parent_loop_level = 0, pool_refs = (\<lambda>p. 0), next_pool = 0\<rparr>
    in case sieve_interpreter_loop_start I0 9 None of
         Some (r1, I1, Some outer) \<Rightarrow>
           (case sieve_interpreter_loop_start (I1\<lparr>pc := 2\<rparr>) 6 None of
              Some (r2, I2, Some inner) \<Rightarrow>
                (case sieve_interpreter_loop_break I2 inner of
                   Some (r3, I3) \<Rightarrow>
                     r1 = SIEVE_EXEC_OK \<and> loop_limit I1 = 9 \<and>
                     r2 = SIEVE_EXEC_OK \<and> loop_limit I2 = 6 \<and>
                     r3 = SIEVE_EXEC_OK \<and> pc I3 = 6 \<and>
                     map loop_end (the (loop_stack I3)) = [9] \<and>
                     pool_refs I3 0 = 1 \<and> pool_refs I3 1 = 0 \<and>
                     loop_limit I3 = 6
                 | None \<Rightarrow> False)
            | _ \<Rightarrow> False)
       | _ \<Rightarrow> False)"
  by (simp add: sieve_interpreter_loop_start_def sieve_interpreter_loop_break_def
        sieve_binary_block_get_size_def SIEVE_MAX_LOOP_DEPTH_def Let_def
        loop_break_unref.simps pool_unref_def)

section \<open>The integer codec\<close>

text \<open>
  Claim C3, evaluated on the code. The local buffer of \<open>sieve_binary_emit_integer\<close> has
  \<^verbatim>\<open>sizeof(sieve_size_t) + 1\<close> = 9 bytes, room for 9 groups of 7 bits, that is for the
  integers below \<open>2\<^sup>6\<^sup>3\<close>. The integer \<open>2\<^sup>6\<^sup>3\<close>, which \<^verbatim>\<open>sieve_size_t\<close> holds, has 10 groups: the
  loop writes the tenth to \<^verbatim>\<open>buffer[-1]\<close>, outside the buffer, so that nothing defined is
  emitted which \<open>sieve_binary_read_integer\<close> could read back. The largest integer below,
  \<open>2\<^sup>6\<^sup>3 - 1\<close>, fills the buffer exactly.
\<close>

theorem emit_integer_overruns_buffer:
  "sieve_binary_emit_integer binary (2 ^ 63) = Out_of_bounds \<and>
   emit_integer_fill (2 ^ 63) = Out_of_bounds \<and>
   emit_integer_fill (2 ^ 63 - 1) = Done (0, [255, 255, 255, 255, 255, 255, 255, 255, 127])"
proof -
  have a: "emit_integer_fill (2 ^ 63) = Out_of_bounds"
    by code_simp
  have b: "emit_integer_fill (2 ^ 63 - 1)
           = Done (0, [255, 255, 255, 255, 255, 255, 255, 255, 127])"
    by code_simp
  have "sieve_binary_emit_integer binary (2 ^ 63) = Out_of_bounds"
    by (simp only: sieve_binary_emit_integer_def a access.case)
  with a b show ?thesis by simp
qed

text \<open>
  Claim C4, evaluated on the code. The ten bytes \<open>82 80 80 80 80 80 80 80 80 00\<close> stand
  for \<open>2\<^sup>6\<^sup>4\<close>, one bit more than \<^verbatim>\<open>sieve_size_t\<close> holds: \<open>sieve_binary_read_integer\<close> returns
  TRUE with the integer 0. It counts the bits before it reads a continuation byte and not
  the bits of the group it is about to shift in, so it only refuses an eleventh
  continuation byte: eleven groups, 77 bits, are accepted and cut to 64. The single byte
  \<open>81\<close> announces a byte that is not there: the function does not return FALSE, it reads
  the byte after the end of the code.
\<close>

theorem read_integer_accepts_overlong:
  "varint_value [0x82, 0x80, 0x80, 0x80, 0x80, 0x80, 0x80, 0x80, 0x80, 0x00] = 2 ^ 64 \<and>
   sieve_binary_read_integer [0x82, 0x80, 0x80, 0x80, 0x80, 0x80, 0x80, 0x80, 0x80, 0x00] 0
     = Done (True, 10, 0) \<and>
   sieve_binary_read_integer
     [0xFF, 0xFF, 0xFF, 0xFF, 0xFF, 0xFF, 0xFF, 0xFF, 0xFF, 0xFF, 0x7F] 0
     = Done (True, 11, 0xFFFFFFFFFFFFFFFF) \<and>
   sieve_binary_read_integer
     [0xFF, 0xFF, 0xFF, 0xFF, 0xFF, 0xFF, 0xFF, 0xFF, 0xFF, 0xFF, 0xFF, 0x7F] 0
     = Done (False, 10, 0xFFFFFFFFFFFFFF80) \<and>
   sieve_binary_read_integer [0x81] 0 = Out_of_bounds"
proof -
  have a: "varint_value [0x82, 0x80, 0x80, 0x80, 0x80, 0x80, 0x80, 0x80, 0x80, 0x00] = 2 ^ 64"
    by (simp add: varint_value_def)
  have b: "sieve_binary_read_integer
             [0x82, 0x80, 0x80, 0x80, 0x80, 0x80, 0x80, 0x80, 0x80, 0x00] 0
           = Done (True, 10, 0)"
    by code_simp
  have c: "sieve_binary_read_integer
             [0xFF, 0xFF, 0xFF, 0xFF, 0xFF, 0xFF, 0xFF, 0xFF, 0xFF, 0xFF, 0x7F] 0
           = Done (True, 11, 0xFFFFFFFFFFFFFFFF)"
    by code_simp
  have d: "sieve_binary_read_integer
             [0xFF, 0xFF, 0xFF, 0xFF, 0xFF, 0xFF, 0xFF, 0xFF, 0xFF, 0xFF, 0xFF, 0x7F] 0
           = Done (False, 10, 0xFFFFFFFFFFFFFF80)"
    by code_simp
  have e: "sieve_binary_read_integer [0x81] 0 = Out_of_bounds"
    by code_simp
  from a b c d e show ?thesis by (simp only: simp_thms)
qed

section \<open>Loading rejects a foreign magic\<close>

lemma swapped_magic:
  "uint32_at e (uint32_bytes (other_endian e) SIEVE_BINARY_MAGIC @ rest) 0 = 0xafbeadde"
  by (cases e) (simp_all add: SIEVE_BINARY_MAGIC_def)

lemma header_at_0:
  "load_aligned_data sbin 0 12 =
     (if 12 \<le> length (memory sbin) then (Some 0, 12) else (None, 0))"
  by (simp add: load_aligned_data_def SIEVE_BINARY_ALIGN_def)

text \<open>
  Claim C6. When the magic that the host reads in the header is not
  \<^verbatim>\<open>SIEVE_BINARY_MAGIC\<close>, and in particular when the image starts with the magic as a host
  of the other byte order writes it, \<open>priv_sieve_binary_load\<close> returns FALSE and leaves the
  binary as it was but for the errors logged: no block is created and none is read.
\<close>

theorem load_rejects_other_magic:
  assumes "uint32_at e (memory sbin) 0 \<noteq> SIEVE_BINARY_MAGIC \<or>
           memory sbin = uint32_bytes (other_endian e) SIEVE_BINARY_MAGIC @ rest"
  shows "\<exists>errs. priv_sieve_binary_load e reg sbin = Done (False, sbin\<lparr>errors := errs\<rparr>)"
proof -
  have m: "uint32_at e (memory sbin) 0 \<noteq> SIEVE_BINARY_MAGIC"
    using assms swapped_magic [of e rest] by (auto simp: SIEVE_BINARY_MAGIC_def)
  show ?thesis
  proof (cases "12 \<le> length (memory sbin)")
    case False
    then have "priv_sieve_binary_load e reg sbin
               = Done (False, sbin\<lparr>errors := errors sbin @ [Header_too_small]\<rparr>)"
      by (simp add: priv_sieve_binary_load_def header_at_0 i_error_def)
    then show ?thesis by blast
  next
    case True
    show ?thesis
    proof (cases "uint32_at e (memory sbin) 0 = SIEVE_BINARY_MAGIC_OTHER_ENDIAN")
      case True
      then have "priv_sieve_binary_load e reg sbin = Done (False, sbin\<lparr>errors := errors sbin\<rparr>)"
        using m \<open>12 \<le> length (memory sbin)\<close>
        by (simp add: priv_sieve_binary_load_def header_at_0 Let_def)
      then show ?thesis by blast
    next
      case False
      then have "priv_sieve_binary_load e reg sbin
                 = Done (False, sbin\<lparr>errors := errors sbin
                      @ [Corrupted_header (uint32_at e (memory sbin) 0)]\<rparr>)"
        using m \<open>12 \<le> length (memory sbin)\<close>
        by (simp add: priv_sieve_binary_load_def header_at_0 Let_def i_error_def)
      then show ?thesis by blast
    qed
  qed
qed

theorem load_rejects_other_magic_witness:
  "(let sbin = \<lparr>blocks = [], active_block = 0, data = None, code = [],
                memory = uint32_bytes Big_endian SIEVE_BINARY_MAGIC
                           @ [0, 0, 0, 0, 0, 0, 0, 1, 0, 0, 0, 0],
                extensions = [], linked_extensions = [], errors = []\<rparr>
    in uint32_at Little_endian (memory sbin) 0 = 0xafbeadde \<and>
       uint32_at Little_endian (memory sbin) 0 \<noteq> SIEVE_BINARY_MAGIC \<and>
       (\<exists>errs. priv_sieve_binary_load Little_endian
                   \<lparr>sieve_extension_get_by_name = (\<lambda>n. - 1),
                    sieve_extension_get_by_id = (\<lambda>i. False)\<rparr> sbin
                 = Done (False, sbin\<lparr>errors := errs\<rparr>)))"
proof -
  let ?sbin = "\<lparr>blocks = [], active_block = 0, data = None, code = [],
                memory = uint32_bytes Big_endian SIEVE_BINARY_MAGIC
                           @ [0, 0, 0, 0, 0, 0, 0, 1, 0, 0, 0, 0],
                extensions = [], linked_extensions = [], errors = []\<rparr>"
  have v: "uint32_at Little_endian (memory ?sbin) 0 = 0xafbeadde"
    by (simp add: SIEVE_BINARY_MAGIC_def)
  then have h: "uint32_at Little_endian (memory ?sbin) 0 \<noteq> SIEVE_BINARY_MAGIC"
    by (simp add: SIEVE_BINARY_MAGIC_def)
  then have "uint32_at Little_endian (memory ?sbin) 0 \<noteq> SIEVE_BINARY_MAGIC \<or>
             memory ?sbin = uint32_bytes (other_endian Little_endian) SIEVE_BINARY_MAGIC @ []"
    by (rule disjI1)
  from load_rejects_other_magic [OF this, of "\<lparr>sieve_extension_get_by_name = (\<lambda>n. - 1),
                    sieve_extension_get_by_id = (\<lambda>i. False)\<rparr>"]
  have "\<exists>errs. priv_sieve_binary_load Little_endian
                   \<lparr>sieve_extension_get_by_name = (\<lambda>n. - 1),
                    sieve_extension_get_by_id = (\<lambda>i. False)\<rparr> ?sbin
                 = Done (False, ?sbin\<lparr>errors := errs\<rparr>)" .
  with v h show ?thesis by (simp only: Let_def simp_thms)
qed

section \<open>Store action without namespaces\<close>

text \<open>
  Claim C8. When the script environment has no namespaces, \<open>act_store_start\<close> returns true
  with a transaction that is marked disabled, for the mailbox the action names, and calls
  nothing; for every disabled transaction \<open>act_store_execute\<close> returns true and leaves the
  world as it is, so it performs no mailbox operation, and \<open>act_store_commit\<close> returns true,
  sets \<^verbatim>\<open>*keep\<close> to false and only logs that the store into the mailbox was skipped.
\<close>

theorem store_without_namespaces:
  assumes "namespaces (aenv_scriptenv aenv) = None"
  shows "(\<exists>tr. act_store_start ms action aenv w = (True, tr, w) \<and> disabled tr \<and>
               mailbox (tr_context tr) = store_target (aenv_scriptenv aenv) (Some action)) \<and>
         (\<forall>tr w1. disabled tr \<longrightarrow>
                act_store_execute ms aenv (Some tr) w1 = (True, Some tr, w1)) \<and>
         (\<forall>tr w2 keep. disabled tr \<longrightarrow>
                act_store_commit ms aenv (Some tr) keep w2
                  = (True, False, Some tr,
                     w2\<lparr>result_log := result_log w2
                          @ [Log_store_skipped (mailbox (tr_context tr))]\<rparr>))"
proof (intro conjI allI impI)
  show "\<exists>tr. act_store_start ms action aenv w = (True, tr, w) \<and> disabled tr \<and>
               mailbox (tr_context tr) = store_target (aenv_scriptenv aenv) (Some action)"
    using assms
    by (cases "act_context action")
       (simp_all add: act_store_start_def new_transaction_def store_target_def Let_def)
next
  fix tr :: act_store_transaction and w1 :: action_world
  assume "disabled tr"
  then show "act_store_execute ms aenv (Some tr) w1 = (True, Some tr, w1)"
    by (simp add: act_store_execute_def)
next
  fix tr :: act_store_transaction and w2 :: action_world and keep :: bool
  assume "disabled tr"
  then show "act_store_commit ms aenv (Some tr) keep w2
                  = (True, False, Some tr,
                     w2\<lparr>result_log := result_log w2
                          @ [Log_store_skipped (mailbox (tr_context tr))]\<rparr>)"
    by (simp add: act_store_commit_def act_store_log_status_def sieve_result_log_def Let_def)
qed


theorem store_without_namespaces_witness:
  "(let senv = \<lparr>default_mailbox = None, username = ''u'', namespaces = None,
                mailbox_autocreate = True, mailbox_autosubscribe = False,
                duplicate_check = None :: (string \<Rightarrow> nat \<Rightarrow> string \<Rightarrow> unit \<Rightarrow> int \<times> unit) option,
                duplicate_mark = None\<rparr>;
        aenv = \<lparr>aenv_scriptenv = senv, msgdata = \<lparr>msg_id = None, mail = 5, mail_box = 7\<rparr>\<rparr>;
        ms = \<lparr>namespace_found = (\<lambda>h n f. None), handle_returned = (\<lambda>h c. 0),
              code_returned = (\<lambda>h c. 0), last_error = (\<lambda>h s. ([], MAIL_ERROR_NONE)),
              backends_equal = (\<lambda>h a b. False)\<rparr>;
        action = \<lparr>act_context = Some \<lparr>mailbox = ''Work''\<rparr>\<rparr>;
        w = \<lparr>mail_ops = [],
             exec_status = \<lparr>message_saved = False, tried_default_save = False,
                             last_storage = None, keep_original = False\<rparr>,
             result_log = []\<rparr>
    in namespaces (aenv_scriptenv aenv) = None \<and>
       (case act_store_start ms action aenv w of
          (ok1, tr1, w1) \<Rightarrow>
            ok1 \<and> disabled tr1 \<and> w1 = w \<and>
            (case act_store_execute ms aenv (Some tr1) w1 of
               (ok2, tr2, w2) \<Rightarrow>
                 ok2 \<and> mail_ops w2 = [] \<and>
                 (case act_store_commit ms aenv tr2 True w2 of
                    (ok3, keep3, tr3, w3) \<Rightarrow>
                      ok3 \<and> \<not> keep3 \<and> mail_ops w3 = [] \<and>
                      result_log w3 = [Log_store_skipped ''Work'']))))"
proof -
  let ?senv = "\<lparr>default_mailbox = None, username = ''u'', namespaces = None,
                mailbox_autocreate = True, mailbox_autosubscribe = False,
                duplicate_check = None :: (string \<Rightarrow> nat \<Rightarrow> string \<Rightarrow> unit \<Rightarrow> int \<times> unit) option,
                duplicate_mark = None\<rparr>"
  let ?aenv = "\<lparr>aenv_scriptenv = ?senv, msgdata = \<lparr>msg_id = None, mail = 5, mail_box = 7\<rparr>\<rparr>"
  let ?ms = "\<lparr>namespace_found = (\<lambda>h n f. None), handle_returned = (\<lambda>h c. 0),
              code_returned = (\<lambda>h c. 0), last_error = (\<lambda>h s. ([], MAIL_ERROR_NONE)),
              backends_equal = (\<lambda>h a b. False)\<rparr>"
  let ?action = "\<lparr>act_context = Some \<lparr>mailbox = ''Work''\<rparr>\<rparr>"
  let ?w = "\<lparr>mail_ops = [],
             exec_status = \<lparr>message_saved = False, tried_default_save = False,
                             last_storage = None, keep_original = False\<rparr>,
             result_log = []\<rparr>"
  have h: "namespaces (aenv_scriptenv ?aenv) = None" by simp
  note t = store_without_namespaces [OF h, of ?ms ?action ?w]
  from t obtain tr where s: "act_store_start ?ms ?action ?aenv ?w = (True, tr, ?w)"
    and d: "disabled tr"
    and m: "mailbox (tr_context tr) = store_target (aenv_scriptenv ?aenv) (Some ?action)"
    by blast
  from t d have e: "act_store_execute ?ms ?aenv (Some tr) ?w = (True, Some tr, ?w)"
    by blast
  from t d have c: "act_store_commit ?ms ?aenv (Some tr) True ?w
                     = (True, False, Some tr,
                        ?w\<lparr>result_log := result_log ?w
                             @ [Log_store_skipped (mailbox (tr_context tr))]\<rparr>)"
    by blast
  have n: "mailbox (tr_context tr) = ''Work''"
    using m by (simp add: store_target_def)
  show ?thesis
    unfolding Let_def using h d n by (simp add: s e c)
qed

section \<open>Match values of a regex test\<close>

lemma takeWhile_snoc:
  "takeWhile P (xs @ [p]) =
     (if \<forall>x\<in>set xs. P x then (if P p then xs @ [p] else xs) else takeWhile P xs)"
proof (cases "\<forall>x\<in>set xs. P x")
  case True
  then show ?thesis by simp
next
  case False
  then obtain x where "x \<in> set xs" "\<not> P x" by blast
  then have "takeWhile P (xs @ [p]) = takeWhile P xs" by (rule takeWhile_append1)
  then show ?thesis using False by auto
qed

lemma regex_add_values_eq:
  "regex_add_values val ps mv k =
     (if \<forall>p\<in>set ps. rm_so p = - 1 then mv
      else mv @ replicate k [] @ captured_values val ps)"
proof (induction ps arbitrary: mv k)
  case Nil
  then show ?case by simp
next
  case (Cons p ps)
  show ?case
  proof (cases "rm_so p = - 1")
    case True
    show ?thesis
    proof (cases "\<forall>q\<in>set ps. rm_so q = - 1")
      case all: True
      then show ?thesis using True Cons.IH [of mv "k + 1"] by simp
    next
      case some: False
      then have tw: "takeWhile (\<lambda>p. rm_so p = - 1) (rev ps @ [p])
                     = takeWhile (\<lambda>p. rm_so p = - 1) (rev ps)"
        by (auto simp: takeWhile_snoc)
      have len: "length (takeWhile (\<lambda>p. rm_so p = - 1) (rev ps)) \<le> length ps"
        using length_takeWhile_le [of "\<lambda>p. rm_so p = - 1" "rev ps"] by simp
      have "captured_values val (p # ps) = [] # captured_values val ps"
        using True len by (simp add: captured_values_def tw Suc_diff_le)
      moreover have "replicate (k + 1) ([] :: string) = replicate k [] @ [[]]"
        by (simp add: replicate_append_same)
      ultimately show ?thesis
        using True some Cons.IH [of mv "k + 1"] by simp
    qed
  next
    case False
    let ?mv = "sieve_match_values_add
                 (if k > 0 then sieve_match_values_skip mv k else mv) (regex_substring val p)"
    have mv: "?mv = mv @ replicate k [] @ [regex_substring val p]"
      by (simp add: sieve_match_values_add_def sieve_match_values_skip_def)
    have step: "regex_add_values val (p # ps) mv k = regex_add_values val ps ?mv 0"
      using False by simp
    show ?thesis
    proof (cases "\<forall>q\<in>set ps. rm_so q = - 1")
      case all: True
      then have tw: "takeWhile (\<lambda>p. rm_so p = - 1) (rev ps @ [p]) = rev ps"
        using False by (simp add: takeWhile_snoc)
      have cv: "captured_values val (p # ps) = [regex_substring val p]"
        using False by (simp add: captured_values_def tw)
      have ih: "regex_add_values val ps ?mv 0 = ?mv"
        using Cons.IH [of ?mv 0] by (simp only: if_P [OF all])
      have "regex_add_values val (p # ps) mv k = mv @ replicate k [] @ [regex_substring val p]"
        using step ih mv by (rule trans [OF trans])
      then show ?thesis
        using False cv by simp
    next
      case some: False
      then have tw: "takeWhile (\<lambda>p. rm_so p = - 1) (rev ps @ [p])
                     = takeWhile (\<lambda>p. rm_so p = - 1) (rev ps)"
        by (auto simp: takeWhile_snoc)
      have len: "length (takeWhile (\<lambda>p. rm_so p = - 1) (rev ps)) \<le> length ps"
        using length_takeWhile_le [of "\<lambda>p. rm_so p = - 1" "rev ps"] by simp
      have cv: "captured_values val (p # ps) = regex_substring val p # captured_values val ps"
        using False len by (simp add: captured_values_def tw Suc_diff_le)
      have ih: "regex_add_values val ps ?mv 0 = ?mv @ replicate 0 [] @ captured_values val ps"
        using Cons.IH [of ?mv 0] by (simp only: if_not_P [OF some])
      have "regex_add_values val (p # ps) mv k
            = ?mv @ replicate 0 [] @ captured_values val ps"
        using step ih by (rule trans)
      then have "regex_add_values val (p # ps) mv k
            = (mv @ replicate k [] @ [regex_substring val p]) @ replicate 0 []
                @ captured_values val ps"
        by (simp only: mv)
      then show ?thesis
        using False cv by simp
    qed
  qed
qed

lemma captured_values_all_unmatched:
  "\<forall>p\<in>set ps. rm_so p = - 1 \<Longrightarrow> captured_values val ps = []"
proof -
  assume a: "\<forall>p\<in>set ps. rm_so p = - 1"
  then have e: "takeWhile (\<lambda>p. rm_so p = - 1) (rev ps) = rev ps"
    by simp
  show ?thesis unfolding captured_values_def e by simp
qed

lemma regex_add_values_captured:
  "regex_add_values val ps [] 0 = captured_values val ps"
  by (simp add: regex_add_values_eq captured_values_all_unmatched)

lemma mcht_regex_get_nmatch:
  "nmatch (snd (mcht_regex_get lib ctx cmp key i)) = nmatch ctx"
  by (auto simp: mcht_regex_get_def Let_def split: option.splits)

text \<open>
  What a call of \<open>mcht_regex_match\<close> does in a test with match values enabled: it returns
  FALSE and leaves the interpreter as it was when the key index is negative, when
  \<open>mcht_regex_get\<close> returns NULL and when \<^verbatim>\<open>regexec\<close> reports no match; when \<^verbatim>\<open>regexec\<close> reports a
  match it returns TRUE and replaces the match values as a whole by the substrings of the
  groups that matched, each at the index of its group; and when the expression that
  \<open>mcht_regex_get\<close> takes from the array was never compiled, \<^verbatim>\<open>regexec\<close> is called with it all
  the same.
\<close>

lemma mcht_regex_match_outcome:
  assumes "match_values_enabled interp" and "nmatch (mctx_data mctx) > 0"
  shows "mcht_regex_match lib mctx interp val key key_index =
           (let v = (case val of None \<Rightarrow> [] | Some s \<Rightarrow> s);
                ctx = mctx_data mctx;
                ctx1 = (if key_index = 0 then ctx\<lparr>value_index := value_index ctx + 1\<rparr> else ctx);
                got = mcht_regex_get lib ctx1 (comparator mctx) key (nat key_index)
            in if key_index < 0 then Returned (False, mctx, interp)
               else case fst got of
                      None \<Rightarrow> Returned (False, mctx\<lparr>mctx_data := snd got\<rparr>, interp)
                    | Some None \<Rightarrow> Uncompiled_regex
                    | Some (Some regexp) \<Rightarrow>
                        (case regexec lib regexp v (nmatch ctx) of
                           None \<Rightarrow> Returned (False, mctx\<lparr>mctx_data := snd got\<rparr>, interp)
                         | Some pm \<Rightarrow>
                             Returned
                               (True,
                                mctx\<lparr>mctx_data :=
                                       (snd got)\<lparr>pmatch := pmatch_written (nmatch ctx) pm\<rparr>\<rparr>,
                                interp\<lparr>match_values :=
                                         captured_values v (pmatch_written (nmatch ctx) pm)\<rparr>)))"
proof -
  let ?v = "case val of None \<Rightarrow> [] | Some s \<Rightarrow> s"
  let ?ctx = "mctx_data mctx"
  let ?ctx1 = "if key_index = 0 then ?ctx\<lparr>value_index := value_index ?ctx + 1\<rparr> else ?ctx"
  obtain r ctx2 where g: "mcht_regex_get lib ?ctx1 (comparator mctx) key (nat key_index) = (r, ctx2)"
    by (cases "mcht_regex_get lib ?ctx1 (comparator mctx) key (nat key_index)")
  have n2: "nmatch ctx2 = nmatch ?ctx"
    using mcht_regex_get_nmatch [of lib ?ctx1 "comparator mctx" key "nat key_index"] g
    by (simp split: if_splits)
  show ?thesis
  proof (cases "key_index < 0")
    case True
    then show ?thesis by (simp add: mcht_regex_match_def Let_def)
  next
    case nonneg: False
    show ?thesis
    proof (cases r)
      case None
      then show ?thesis using nonneg g by (simp add: mcht_regex_match_def Let_def)
    next
      case slot: (Some slot)
      show ?thesis
      proof (cases slot)
        case None
        then show ?thesis using nonneg g slot by (simp add: mcht_regex_match_def Let_def)
      next
        case (Some regexp)
        show ?thesis
        proof (cases "regexec lib regexp ?v (nmatch ?ctx)")
          case None
          then show ?thesis
            using nonneg g slot \<open>slot = Some regexp\<close> n2
            by (simp add: mcht_regex_match_def Let_def)
        next
          case (Some pm)
          then show ?thesis
            using nonneg g slot \<open>slot = Some regexp\<close> n2 assms
            by (simp add: mcht_regex_match_def Let_def sieve_match_values_start_def
                  sieve_match_values_commit_def regex_add_values_captured)
        qed
      qed
    qed
  qed
qed


section \<open>The match type \<^verbatim>\<open>:matches\<close>\<close>

lemma match_keys_never:
  "match_keys (\<lambda>mctx val val_size key key_size key_index. False) mctx val keys i = False"
  by (induction keys arbitrary: i) simp_all

text \<open>
  Claim C1, evaluated on the code. \<open>mtch_matches_match\<close> returns FALSE whatever the value and
  the key are, so that a test with \<^verbatim>\<open>:matches\<close> never succeeds and no match values are set.
  In the test script of the repository the key \<^verbatim>\<open>Test of *\<close> is expected to match the value
  \<^verbatim>\<open>Test of general stupidity\<close> with \<open>${1}\<close> = \<^verbatim>\<open>general stupidity\<close>, and the key \<^verbatim>\<open>*top\<close> to
  match \<^verbatim>\<open>toptoptop\<close>; as glob patterns they do.
\<close>

theorem matches_match_returns_false:
  "\<not> mtch_matches_match mctx val val_size key key_size key_index \<and>
   \<not> sieve_match_value matches_match_type mctx key_list val \<and>
   glob_captures c_tolower ''Test of *'' ''Test of general stupidity'' []
     = Some [''general stupidity''] \<and>
   glob_matches c_tolower ''Test of *'' ''Test of general stupidity'' \<and>
   glob_matches c_tolower ''*top'' ''toptoptop''"
proof -
  have a: "\<not> mtch_matches_match mctx val val_size key key_size key_index"
    by (simp add: mtch_matches_match_def)
  have m: "(mtch_matches_match :: 'a \<Rightarrow> string \<Rightarrow> nat \<Rightarrow> string \<Rightarrow> nat \<Rightarrow> int \<Rightarrow> bool)
             = (\<lambda>mctx val val_size key key_size key_index. False)"
    by (intro ext) (simp add: mtch_matches_match_def)
  have b: "\<not> sieve_match_value matches_match_type mctx key_list val"
    by (simp add: sieve_match_value_def matches_match_type_def m match_keys_never)
  have c: "glob_captures c_tolower ''Test of *'' ''Test of general stupidity'' []
             = Some [''general stupidity'']"
    by code_simp
  have d: "glob_matches c_tolower ''Test of *'' ''Test of general stupidity''"
    by (simp only: glob_matches_def c) simp
  have e: "glob_matches c_tolower ''*top'' ''toptoptop''"
    by code_simp
  from a b c d e show ?thesis by blast
qed

section \<open>Duplicate callbacks are used as a pair\<close>

text \<open>
  Claim C10. If either of the callbacks \<open>duplicate_check\<close> and \<open>duplicate_mark\<close> is NULL,
  \<open>sieve_action_duplicate_check\<close> returns 0 and \<open>sieve_action_duplicate_mark\<close> does
  nothing: neither invokes a callback, the host is as it was, and
  \<open>sieve_action_duplicate_check_available\<close> reports that the pair is not available.
  Conversely a call is recorded only when the pair is available.
\<close>

theorem duplicate_callbacks_pair:
  fixes senv :: "'h sieve_script_env" and h :: "'h host"
  assumes "duplicate_check senv = None \<or> duplicate_mark senv = None"
  shows "sieve_action_duplicate_check senv ident n h = (0, h) \<and>
         sieve_action_duplicate_mark senv ident n t h = h \<and>
         \<not> sieve_action_duplicate_check_available senv"
  using assms
  by (auto simp: sieve_action_duplicate_check_def sieve_action_duplicate_mark_def
        sieve_action_duplicate_check_available_def)

theorem duplicate_callbacks_pair_witness:
  "(duplicate_check
      \<lparr>default_mailbox = None, username = ''u'', namespaces = None,
       mailbox_autocreate = False, mailbox_autosubscribe = False,
       duplicate_check = Some (\<lambda>i n u (s::nat). (1, Suc s)), duplicate_mark = None\<rparr> = None \<or>
    duplicate_mark
      \<lparr>default_mailbox = None, username = ''u'', namespaces = None,
       mailbox_autocreate = False, mailbox_autosubscribe = False,
       duplicate_check = Some (\<lambda>i n u (s::nat). (1, Suc s)), duplicate_mark = None\<rparr> = None) \<and>
   sieve_action_duplicate_check
      \<lparr>default_mailbox = None, username = ''u'', namespaces = None,
       mailbox_autocreate = False, mailbox_autosubscribe = False,
       duplicate_check = Some (\<lambda>i n u (s::nat). (1, Suc s)), duplicate_mark = None\<rparr>
      ''id'' 2 \<lparr>hstate = 0, calls = []\<rparr> = (0, \<lparr>hstate = 0, calls = []\<rparr>) \<and>
   sieve_action_duplicate_mark
      \<lparr>default_mailbox = None, username = ''u'', namespaces = None,
       mailbox_autocreate = False, mailbox_autosubscribe = False,
       duplicate_check = Some (\<lambda>i n u (s::nat). (1, Suc s)), duplicate_mark = None\<rparr>
      ''id'' 2 7 \<lparr>hstate = 0, calls = []\<rparr> = \<lparr>hstate = 0, calls = []\<rparr>"
  using duplicate_callbacks_pair
    [of "\<lparr>default_mailbox = None, username = ''u'', namespaces = None,
         mailbox_autocreate = False, mailbox_autosubscribe = False,
         duplicate_check = Some (\<lambda>i n u (s::nat). (1, Suc s)), duplicate_mark = None\<rparr>"
        "''id''" 2 "\<lparr>hstate = 0, calls = []\<rparr>" 7]
  by simp

end
